theory Spec2Isabelle
  imports Complex_Main "HOL-Library.Word"
begin

section \<open>PayMind: payment authorisation and budget-enforced ledger\<close>

text \<open>
  A shallow embedding of the payment core of the repository: the Solidity contracts
  \<^verbatim>\<open>AgentRegistry\<close> and \<^verbatim>\<open>PaymentLedger\<close>, the TypeScript facilitator
  (\<^verbatim>\<open>x402/facilitator.ts\<close>), the payment client (\<^verbatim>\<open>x402/client.ts\<close>) and the
  ledger adapter with its in-memory fallback (\<^verbatim>\<open>blockchain/ledger.ts\<close>).
\<close>

subsection \<open>Solidity values\<close>

type_synonym uint256 = "256 word"
type_synonym address = "160 word"

text \<open>
  A transaction either returns or reverts. A revert is a failed \<^verbatim>\<open>require\<close> with its
  message, or the arithmetic panic of Solidity 0.8 (code 0x11) on overflow. A reverted
  call leaves the storage as it was, so a call returns \<open>Inl\<close> and no new state.
\<close>

datatype revert = Require string | Panic_0x11

record tx_env =
  msg_sender :: address
  block_timestamp :: uint256

definition checked_add :: "uint256 \<Rightarrow> uint256 \<Rightarrow> revert + uint256" where
  "checked_add a b = (if unat a + unat b < 2 ^ 256 then Inr (a + b) else Inl Panic_0x11)"

definition one_days :: uint256 where
  "one_days = 86400"

subsection \<open>AgentRegistry\<close>

record Agent =
  wallet :: address
  name :: string
  dailyBudget :: uint256
  spentToday :: uint256
  lastResetDay :: uint256
  active :: bool
  registeredAt :: uint256

text \<open>The value every key of a Solidity mapping holds before it is written.\<close>

definition Agent_zero :: Agent where
  "Agent_zero = \<lparr>wallet = 0, name = [], dailyBudget = 0, spentToday = 0,
                  lastResetDay = 0, active = False, registeredAt = 0\<rparr>"

record AgentRegistry =
  agents :: "address \<Rightarrow> Agent"
  agentList :: "address list"
  paymentLedger :: address
  owner :: address

definition constructor_AgentRegistry :: "tx_env \<Rightarrow> AgentRegistry" where
  "constructor_AgentRegistry env =
     \<lparr>agents = (\<lambda>_. Agent_zero), agentList = [], paymentLedger = 0, owner = msg_sender env\<rparr>"

definition setPaymentLedger :: "tx_env \<Rightarrow> AgentRegistry \<Rightarrow> address \<Rightarrow> revert + AgentRegistry" where
  "setPaymentLedger env s ledger =
     (if msg_sender env \<noteq> owner s then Inl (Require ''AgentRegistry: caller is not owner'')
      else if ledger = 0 then Inl (Require ''AgentRegistry: zero address'')
      else Inr (s\<lparr>paymentLedger := ledger\<rparr>))"

definition registerAgent :: "tx_env \<Rightarrow> AgentRegistry \<Rightarrow> string \<Rightarrow> uint256 \<Rightarrow> revert + AgentRegistry" where
  "registerAgent env s nm budget =
     (if wallet (agents s (msg_sender env)) \<noteq> 0 then Inl (Require ''AgentRegistry: already registered'')
      else if \<not> length nm > 0 then Inl (Require ''AgentRegistry: empty name'')
      else if \<not> budget > 0 then Inl (Require ''AgentRegistry: zero budget'')
      else Inr (s\<lparr>agents := (agents s)(msg_sender env :=
                      \<lparr>wallet = msg_sender env, name = nm, dailyBudget = budget, spentToday = 0,
                       lastResetDay = block_timestamp env div one_days, active = True,
                       registeredAt = block_timestamp env\<rparr>),
                    agentList := agentList s @ [msg_sender env]\<rparr>))"

definition deactivateAgent :: "tx_env \<Rightarrow> AgentRegistry \<Rightarrow> revert + AgentRegistry" where
  "deactivateAgent env s =
     (if \<not> wallet (agents s (msg_sender env)) \<noteq> 0 then Inl (Require ''AgentRegistry: agent not registered'')
      else Inr (s\<lparr>agents := (agents s)(msg_sender env := (agents s (msg_sender env))\<lparr>active := False\<rparr>)\<rparr>))"

definition updateBudget :: "tx_env \<Rightarrow> AgentRegistry \<Rightarrow> uint256 \<Rightarrow> revert + AgentRegistry" where
  "updateBudget env s newBudget =
     (if \<not> wallet (agents s (msg_sender env)) \<noteq> 0 then Inl (Require ''AgentRegistry: agent not registered'')
      else if \<not> newBudget > 0 then Inl (Require ''AgentRegistry: zero budget'')
      else Inr (s\<lparr>agents := (agents s)(msg_sender env := (agents s (msg_sender env))\<lparr>dailyBudget := newBudget\<rparr>)\<rparr>))"

text \<open>
  \<^verbatim>\<open>canSpend\<close> is a view function: it returns a boolean, or reverts when the checked
  addition \<^verbatim>\<open>spent + amount\<close> overflows.
\<close>

definition canSpend :: "tx_env \<Rightarrow> AgentRegistry \<Rightarrow> address \<Rightarrow> uint256 \<Rightarrow> revert + bool" where
  "canSpend env s agent amount =
     (let a = agents s agent in
      if wallet a = 0 \<or> \<not> active a then Inr False
      else
        let currentDay = block_timestamp env div one_days;
            spent = (if lastResetDay a < currentDay then 0 else spentToday a)
        in case checked_add spent amount of
             Inl e \<Rightarrow> Inl e
           | Inr tot \<Rightarrow> Inr (tot \<le> dailyBudget a))"

text \<open>
  \<^verbatim>\<open>recordSpend\<close>: the day reset is written to storage before the budget check, but a
  failing \<^verbatim>\<open>require\<close> reverts the whole call, the reset included.
\<close>

definition recordSpend :: "tx_env \<Rightarrow> AgentRegistry \<Rightarrow> address \<Rightarrow> uint256 \<Rightarrow> revert + AgentRegistry" where
  "recordSpend env s agent amount =
     (if msg_sender env \<noteq> paymentLedger s then Inl (Require ''AgentRegistry: caller is not PaymentLedger'')
      else
        let a = agents s agent in
        if \<not> wallet a \<noteq> 0 then Inl (Require ''AgentRegistry: agent not registered'')
        else if \<not> active a then Inl (Require ''AgentRegistry: agent not active'')
        else
          let currentDay = block_timestamp env div one_days;
              a1 = (if lastResetDay a < currentDay
                    then a\<lparr>spentToday := 0, lastResetDay := currentDay\<rparr> else a)
          in case checked_add (spentToday a1) amount of
               Inl e \<Rightarrow> Inl e
             | Inr tot \<Rightarrow>
                 if \<not> tot \<le> dailyBudget a1 then Inl (Require ''AgentRegistry: exceeds daily budget'')
                 else (case checked_add (spentToday a1) amount of
                         Inl e \<Rightarrow> Inl e
                       | Inr spent' \<Rightarrow> Inr (s\<lparr>agents := (agents s)(agent := a1\<lparr>spentToday := spent'\<rparr>)\<rparr>)))"

text \<open>
  A sequence of \<^verbatim>\<open>recordSpend\<close> transactions, each with its own sender and block
  timestamp. A transaction that reverts changes nothing and the next one runs on the
  same storage.
\<close>

fun recordSpend_seq :: "AgentRegistry \<Rightarrow> (tx_env \<times> address \<times> uint256) list \<Rightarrow> AgentRegistry" where
  "recordSpend_seq s [] = s"
| "recordSpend_seq s ((env, agent, amount) # cs) =
     (case recordSpend env s agent amount of
        Inl _ \<Rightarrow> recordSpend_seq s cs
      | Inr s' \<Rightarrow> recordSpend_seq s' cs)"

text \<open>
  The spec's \<^emph>\<open>effective spent\<close>: what is compared against the daily budget, namely 0
  once a new day has started and the stored \<open>spentToday\<close> otherwise.
\<close>

definition effectiveSpent :: "tx_env \<Rightarrow> Agent \<Rightarrow> uint256" where
  "effectiveSpent env a =
     (if lastResetDay a < block_timestamp env div one_days then 0 else spentToday a)"

subsection \<open>JavaScript values used by the facilitator\<close>

text \<open>
  Numbers that the code only uses as integers (nonces, unix times) are \<open>int\<close>.
  \<open>Number_toString\<close> is the decimal rendering that a template literal gives an integer
  (below \<open>10^21\<close> in absolute value, where JavaScript does not switch to exponent form).
\<close>

definition digit_char :: "nat \<Rightarrow> char" where
  "digit_char n = ''0123456789'' ! n"

fun nat_toString :: "nat \<Rightarrow> string" where
  "nat_toString n =
     (if n < 10 then [digit_char n] else nat_toString (n div 10) @ [digit_char (n mod 10)])"

declare nat_toString.simps [simp del]

definition Number_toString :: "int \<Rightarrow> string" where
  "Number_toString i = (if i < 0 then ''-'' @ nat_toString (nat (- i)) else nat_toString (nat i))"

text \<open>
  \<open>toLowerCase\<close> on the ASCII letters. Strings are byte strings here; the addresses the
  facilitator compares are ASCII (\<^verbatim>\<open>0x\<close> and 40 hexadecimal digits).
\<close>

definition char_toLowerCase :: "char \<Rightarrow> char" where
  "char_toLowerCase c =
     (case map_of (zip ''ABCDEFGHIJKLMNOPQRSTUVWXYZ'' ''abcdefghijklmnopqrstuvwxyz'') c of
        None \<Rightarrow> c
      | Some l \<Rightarrow> l)"

definition toLowerCase :: "string \<Rightarrow> string" where
  "toLowerCase s = map char_toLowerCase s"

text \<open>
  JavaScript numbers are IEEE-754 doubles. \<open>to_double x\<close> is the double nearest to the
  real \<open>x\<close> (ties to the even significand), for 0 and for every \<open>x\<close> in the normal range:
  with \<open>2^e \<le> \<bar>x\<bar> < 2^(e+1)\<close> the doubles around \<open>x\<close> are the multiples of \<open>2^(e-52)\<close>.
  The product of two doubles is \<open>to_double\<close> of the exact product, and \<^verbatim>\<open>Number(n)\<close> of a
  BigInt \<open>n\<close> is \<open>to_double\<close> of \<open>n\<close>, an integer again. Every value converted below
  is far inside the normal range (products of a draw in \<open>[0, 1)\<close> with 1000000, and
  \<^verbatim>\<open>uint256\<close> values).
\<close>

definition round_half_even :: "real \<Rightarrow> int" where
  "round_half_even q =
     (let f = \<lfloor>q\<rfloor>; d = q - of_int f in
      if d < 1 / 2 then f else if 1 / 2 < d then f + 1 else if even f then f else f + 1)"

definition to_double :: "real \<Rightarrow> real" where
  "to_double x =
     (if x = 0 then 0
      else let u = 2 powr (of_int \<lfloor>log 2 \<bar>x\<bar>\<rfloor> - 52)
           in sgn x * of_int (round_half_even (\<bar>x\<bar> / u)) * u)"

text \<open>\<^verbatim>\<open>Number(n)\<close> for a BigInt \<open>n\<close>.\<close>

definition Number_of_BigInt :: "int \<Rightarrow> int" where
  "Number_of_BigInt n = \<lfloor>to_double (of_int n)\<rfloor>"

subsection \<open>x402 facilitator\<close>

record PaymentRequirement =
  r_amount :: string
  r_currency :: string
  r_receiver :: string
  r_resource :: string
  r_network :: string
  r_chainId :: int
  r_nonce :: int
  r_expiry :: int

record PaymentProof =
  p_signature :: string
  p_from :: string
  p_to :: string
  p_amount :: string
  p_resource :: string
  p_nonce :: int
  p_expiry :: int

text \<open>The typed value \<^verbatim>\<open>PaymentAuthorization\<close> that is signed and verified.\<close>

record PaymentAuthorization =
  a_from :: string
  a_to :: string
  a_amount :: string
  a_resource :: string
  a_nonce :: int
  a_expiry :: int

text \<open>
  What the facilitator calls outside the repository: the clock (\<^verbatim>\<open>Date.now()\<close>, in
  milliseconds), one draw of \<^verbatim>\<open>Math.random()\<close> (the value of the double that is
  drawn, at most \<open>1 - 2^-53\<close>), the built-in \<^verbatim>\<open>BigInt\<close> conversion
  and ethers' \<^verbatim>\<open>verifyTypedData\<close> for the fixed domain and types. The last two can
  throw: \<open>Inl\<close> carries the message of the error. Every theorem below holds for
  whatever these functions compute.
\<close>

record runtime =
  Date_now :: int
  Math_random :: real
  BigInt :: "string \<Rightarrow> string + int"
  verifyTypedData :: "PaymentAuthorization \<Rightarrow> string \<Rightarrow> string + string"

definition config_contracts_usdt :: string where
  "config_contracts_usdt = ''0x55d398326f99059fF775485246999027B3197955''"

definition config_bsc_chainId :: int where
  "config_bsc_chainId = 56"

definition createPaymentRequirement :: "runtime \<Rightarrow> string \<Rightarrow> string \<Rightarrow> string \<Rightarrow> PaymentRequirement" where
  "createPaymentRequirement rt resource amount receiver =
     \<lparr>r_amount = amount,
      r_currency = config_contracts_usdt,
      r_receiver = receiver,
      r_resource = resource,
      r_network = ''bsc'',
      r_chainId = config_bsc_chainId,
      r_nonce = \<lfloor>to_double (Math_random rt * 1000000)\<rfloor>,
      r_expiry = Date_now rt div 1000 + 300\<rparr>"

record VerifyResult =
  valid :: bool
  signer :: string
  reason :: "string option"

definition nonceKey :: "PaymentProof \<Rightarrow> string" where
  "nonceKey p = p_from p @ ''-'' @ Number_toString (p_nonce p)"

definition authorization :: "PaymentProof \<Rightarrow> PaymentAuthorization" where
  "authorization p =
     \<lparr>a_from = p_from p, a_to = p_to p, a_amount = p_amount p, a_resource = p_resource p,
      a_nonce = p_nonce p, a_expiry = p_expiry p\<rparr>"

definition verification_error :: "string \<Rightarrow> VerifyResult" where
  "verification_error message =
     \<lparr>valid = False, signer = [], reason = Some (''Verification error: '' @ message)\<rparr>"

text \<open>
  \<^verbatim>\<open>verifyPaymentProof\<close> reads and updates the module's set \<^verbatim>\<open>usedNonces\<close>: the set is
  passed in and returned. The \<^verbatim>\<open>catch\<close> around the body turns a throwing \<^verbatim>\<open>BigInt\<close> or
  \<^verbatim>\<open>verifyTypedData\<close> into a result.
\<close>

definition verifyPaymentProof ::
  "runtime \<Rightarrow> string set \<Rightarrow> PaymentProof \<Rightarrow> string \<Rightarrow> string \<Rightarrow> VerifyResult \<times> string set" where
  "verifyPaymentProof rt usedNonces p expectedResource expectedAmount =
     (let now = Date_now rt div 1000 in
      if p_expiry p < now
      then (\<lparr>valid = False, signer = [], reason = Some ''Payment proof expired''\<rparr>, usedNonces)
      else if nonceKey p \<in> usedNonces
      then (\<lparr>valid = False, signer = [], reason = Some ''Nonce already used''\<rparr>, usedNonces)
      else
       (case BigInt rt (p_amount p) of
          Inl message \<Rightarrow> (verification_error message, usedNonces)
        | Inr paid \<Rightarrow>
           (case BigInt rt expectedAmount of
              Inl message \<Rightarrow> (verification_error message, usedNonces)
            | Inr expected \<Rightarrow>
                if paid < expected
                then (\<lparr>valid = False, signer = [],
                       reason = Some (''Insufficient payment: '' @ p_amount p @ '' < '' @ expectedAmount)\<rparr>,
                      usedNonces)
                else if p_resource p \<noteq> expectedResource
                then (\<lparr>valid = False, signer = [],
                       reason = Some (''Resource mismatch: '' @ p_resource p @ '' !== '' @ expectedResource)\<rparr>,
                      usedNonces)
                else
                 (case verifyTypedData rt (authorization p) (p_signature p) of
                    Inl message \<Rightarrow> (verification_error message, usedNonces)
                  | Inr recoveredAddress \<Rightarrow>
                      if toLowerCase recoveredAddress \<noteq> toLowerCase (p_from p)
                      then (\<lparr>valid = False, signer = recoveredAddress,
                             reason = Some ''Signature does not match claimed sender''\<rparr>,
                            usedNonces)
                      else (\<lparr>valid = True, signer = recoveredAddress, reason = None\<rparr>,
                            insert (nonceKey p) usedNonces)))))"

text \<open>
  The history of the module: the calls made so far, each with the runtime it ran in. The
  set \<^verbatim>\<open>usedNonces\<close> starts empty; \<open>verify_calls\<close> is the set after the calls and
  \<open>accepted_proofs\<close> are the proofs that were accepted on the way.
\<close>

type_synonym verify_call = "runtime \<times> PaymentProof \<times> string \<times> string"

fun verify_calls :: "string set \<Rightarrow> verify_call list \<Rightarrow> string set" where
  "verify_calls used [] = used"
| "verify_calls used ((rt, p, res, amt) # cs) =
     verify_calls (snd (verifyPaymentProof rt used p res amt)) cs"

fun accepted_proofs :: "string set \<Rightarrow> verify_call list \<Rightarrow> PaymentProof list" where
  "accepted_proofs used [] = []"
| "accepted_proofs used ((rt, p, res, amt) # cs) =
     (if valid (fst (verifyPaymentProof rt used p res amt)) then [p] else [])
     @ accepted_proofs (snd (verifyPaymentProof rt used p res amt)) cs"

text \<open>
  What ethers guarantees of \<^verbatim>\<open>verifyTypedData\<close>: when it returns, it returns an address,
  \<^verbatim>\<open>0x\<close> followed by 40 hexadecimal digits.
\<close>

definition is_address :: "string \<Rightarrow> bool" where
  "is_address a =
     (length a = 42 \<and> take 2 a = ''0x'' \<and> set (drop 2 a) \<subseteq> set ''0123456789abcdefABCDEF'')"

definition recovers_addresses :: "runtime \<Rightarrow> bool" where
  "recovers_addresses rt = (\<forall>a s addr. verifyTypedData rt a s = Inr addr \<longrightarrow> is_address addr)"

text \<open>
  The contract of the verifier in the spec's words: five checks, each either passing or
  giving its rejection, tried in the fixed order expiry, replay, amount, resource,
  signature; the first rejection is the answer and leaves the replay set alone; when no
  check rejects the proof is accepted and its key is inserted. Each check is the
  comparison the code makes (the expiry check rejects when \<open>expiry < now\<close>); a
  conversion or a signature recovery that throws is the failure of its check.
\<close>

datatype check = Expiry | Replay | Amount | Resource | Signature

fun rejection ::
  "runtime \<Rightarrow> string set \<Rightarrow> PaymentProof \<Rightarrow> string \<Rightarrow> string \<Rightarrow> check \<Rightarrow> VerifyResult option" where
  "rejection rt used p expectedResource expectedAmount Expiry =
     (if p_expiry p < Date_now rt div 1000
      then Some \<lparr>valid = False, signer = [], reason = Some ''Payment proof expired''\<rparr>
      else None)"
| "rejection rt used p expectedResource expectedAmount Replay =
     (if nonceKey p \<in> used
      then Some \<lparr>valid = False, signer = [], reason = Some ''Nonce already used''\<rparr>
      else None)"
| "rejection rt used p expectedResource expectedAmount Amount =
     (case BigInt rt (p_amount p) of
        Inl message \<Rightarrow> Some (verification_error message)
      | Inr paid \<Rightarrow>
         (case BigInt rt expectedAmount of
            Inl message \<Rightarrow> Some (verification_error message)
          | Inr expected \<Rightarrow>
              if paid \<ge> expected then None
              else Some \<lparr>valid = False, signer = [],
                     reason = Some (''Insufficient payment: '' @ p_amount p @ '' < '' @ expectedAmount)\<rparr>))"
| "rejection rt used p expectedResource expectedAmount Resource =
     (if p_resource p = expectedResource then None
      else Some \<lparr>valid = False, signer = [],
             reason = Some (''Resource mismatch: '' @ p_resource p @ '' !== '' @ expectedResource)\<rparr>)"
| "rejection rt used p expectedResource expectedAmount Signature =
     (case verifyTypedData rt (authorization p) (p_signature p) of
        Inl message \<Rightarrow> Some (verification_error message)
      | Inr recoveredAddress \<Rightarrow>
          if toLowerCase recoveredAddress = toLowerCase (p_from p) then None
          else Some \<lparr>valid = False, signer = recoveredAddress,
                 reason = Some ''Signature does not match claimed sender''\<rparr>)"

fun first_rejection :: "(check \<Rightarrow> VerifyResult option) \<Rightarrow> check list \<Rightarrow> VerifyResult option" where
  "first_rejection f [] = None"
| "first_rejection f (c # cs) = (case f c of Some r \<Rightarrow> Some r | None \<Rightarrow> first_rejection f cs)"

definition checks_in_order :: "check list" where
  "checks_in_order = [Expiry, Replay, Amount, Resource, Signature]"

definition earlier :: "check \<Rightarrow> check list" where
  "earlier c = takeWhile (\<lambda>x. x \<noteq> c) checks_in_order"

definition verify_in_order ::
  "runtime \<Rightarrow> string set \<Rightarrow> PaymentProof \<Rightarrow> string \<Rightarrow> string \<Rightarrow> VerifyResult \<times> string set" where
  "verify_in_order rt used p expectedResource expectedAmount =
     (case first_rejection (rejection rt used p expectedResource expectedAmount) checks_in_order of
        Some r \<Rightarrow> (r, used)
      | None \<Rightarrow>
          (\<lparr>valid = True,
            signer = (case verifyTypedData rt (authorization p) (p_signature p) of
                        Inl _ \<Rightarrow> [] | Inr recoveredAddress \<Rightarrow> recoveredAddress),
            reason = None\<rparr>,
           insert (nonceKey p) used))"

text \<open>
  A runtime for the examples. \<open>BigInt_decimal\<close> is the built-in conversion on a
  non-empty string of decimal digits and an error on every other string (the built-in
  accepts more: surrounding white space, a sign, radix prefixes, the empty string).
  \<open>recover_constant\<close> stands for a signature check that recovers one fixed address.
\<close>

fun decimal_value :: "nat \<Rightarrow> string \<Rightarrow> nat option" where
  "decimal_value acc [] = Some acc"
| "decimal_value acc (c # cs) =
     (case map_of (zip ''0123456789'' [0, 1, 2, 3, 4, 5, 6, 7, 8, 9]) c of
        None \<Rightarrow> None
      | Some d \<Rightarrow> decimal_value (10 * acc + d) cs)"

definition BigInt_decimal :: "string \<Rightarrow> string + int" where
  "BigInt_decimal s =
     (case (if s = [] then None else decimal_value 0 s) of
        None \<Rightarrow> Inl (''Cannot convert '' @ s @ '' to a BigInt'')
      | Some n \<Rightarrow> Inr (int n))"

definition example_runtime :: "int \<Rightarrow> real \<Rightarrow> string \<Rightarrow> runtime" where
  "example_runtime ms draw recovered =
     \<lparr>Date_now = ms, Math_random = draw, BigInt = BigInt_decimal,
      verifyTypedData = (\<lambda>_ _. Inr recovered)\<rparr>"

subsection \<open>JSON values and responses\<close>

text \<open>
  The value of \<^verbatim>\<open>response.json()\<close>, and \<^verbatim>\<open>undefined\<close> for a property that is absent.
  An object is the list of its entries. Numbers are the integers.
\<close>

datatype json =
    JUndefined
  | JNull
  | JBool bool
  | JNumber int
  | JString string
  | JObject "(string \<times> json) list"
  | JArray "json list"

fun truthy :: "json \<Rightarrow> bool" where
  "truthy JUndefined = False"
| "truthy JNull = False"
| "truthy (JBool b) = b"
| "truthy (JNumber n) = (n \<noteq> 0)"
| "truthy (JString s) = (s \<noteq> [])"
| "truthy (JObject _) = True"
| "truthy (JArray _) = True"

text \<open>\<^verbatim>\<open>a || b\<close>\<close>

definition js_or :: "json \<Rightarrow> json \<Rightarrow> json" where
  "js_or a b = (if truthy a then a else b)"

text \<open>
  \<^verbatim>\<open>v.key\<close> for the keys the client reads (\<^verbatim>\<open>paymentRequirement\<close>, \<^verbatim>\<open>amount\<close>,
  \<^verbatim>\<open>receiver\<close>, \<^verbatim>\<open>resource\<close>, \<^verbatim>\<open>nonce\<close>, \<^verbatim>\<open>expiry\<close>), none of which a
  prototype defines: a TypeError on \<^verbatim>\<open>null\<close> and \<^verbatim>\<open>undefined\<close>, the entry of an object,
  \<^verbatim>\<open>undefined\<close> on everything else.
\<close>

fun get_property :: "json \<Rightarrow> string \<Rightarrow> string + json" where
  "get_property JUndefined k = Inl (''Cannot read properties of undefined (reading '' @ k @ '')'')"
| "get_property JNull k = Inl (''Cannot read properties of null (reading '' @ k @ '')'')"
| "get_property (JObject entries) k = Inr (case map_of entries k of None \<Rightarrow> JUndefined | Some v \<Rightarrow> v)"
| "get_property v k = Inr JUndefined"

text \<open>The same on a value known to be neither \<^verbatim>\<open>null\<close> nor \<^verbatim>\<open>undefined\<close>.\<close>

definition property :: "json \<Rightarrow> string \<Rightarrow> json" where
  "property v k = (case get_property v k of Inl _ \<Rightarrow> JUndefined | Inr x \<Rightarrow> x)"


text \<open>
  A response: \<open>json_body\<close> is what \<^verbatim>\<open>response.json()\<close> resolves to, or the message it
  rejects with; \<open>text_body\<close> is \<^verbatim>\<open>response.text()\<close>.
\<close>

record response =
  status :: int
  statusText :: string
  json_body :: "string + json"
  text_body :: string

definition ok :: "response \<Rightarrow> bool" where
  "ok r = (200 \<le> status r \<and> status r \<le> 299)"

subsection \<open>x402 payment client\<close>

text \<open>
  The proof the client builds. The fields copied from the server's requirement are
  whatever JSON the server sent.
\<close>

record ClientProof =
  c_signature :: string
  c_from :: string
  c_to :: json
  c_amount :: json
  c_resource :: json
  c_nonce :: json
  c_expiry :: json

record PayAndFetchResult =
  data :: json
  paid :: bool
  paymentAmount :: json
  paymentProof :: "ClientProof option"

datatype js_error = Error string

text \<open>
  The wallet module. Its configuration is the private key; \<^verbatim>\<open>getProvider\<close> and
  \<^verbatim>\<open>new ethers.Wallet\<close> are calls into ethers that can throw (\<open>new_Wallet\<close> is the address
  of the wallet that is built, or the message of the error), and \<^verbatim>\<open>wallet.signTypedData\<close>
  signs the typed value with the fields from, to, amount, resource, nonce and expiry. The
  module caches the provider and the wallet; the configuration does not change, so the
  cache is not modelled.
\<close>

record wallet_env = runtime +
  config_wallet_privateKey :: string
  getProvider_error :: "string option"
  new_Wallet :: "string + string"
  signTypedData :: "string \<Rightarrow> json \<Rightarrow> json \<Rightarrow> json \<Rightarrow> json \<Rightarrow> json \<Rightarrow> string + string"

definition ZeroAddress :: string where
  "ZeroAddress = ''0x0000000000000000000000000000000000000000''"

text \<open>\<^verbatim>\<open>getWallet\<close> returns the wallet, here its address.\<close>

definition getWallet :: "'a wallet_env_scheme \<Rightarrow> string + string" where
  "getWallet env =
     (if config_wallet_privateKey env = []
      then Inl ''PRIVATE_KEY not set in environment. Agent wallet unavailable.''
      else (case getProvider_error env of
              Some message \<Rightarrow> Inl message
            | None \<Rightarrow> new_Wallet env))"

definition getAgentAddress :: "'a wallet_env_scheme \<Rightarrow> string + string" where
  "getAgentAddress env =
     (if config_wallet_privateKey env = [] then Inr ZeroAddress else getWallet env)"




text \<open>
  The \<^verbatim>\<open>try\<close> block that reads the requirement of a 402 response:
  \<^verbatim>\<open>body.paymentRequirement || body\<close>; \<open>None\<close> when it throws.
\<close>

definition parse_requirement :: "response \<Rightarrow> json option" where
  "parse_requirement firstResponse =
     (case json_body firstResponse of
        Inl _ \<Rightarrow> None
      | Inr body \<Rightarrow>
         (case get_property body ''paymentRequirement'' of
            Inl _ \<Rightarrow> None
          | Inr nested \<Rightarrow> Some (js_or nested body)))"





subsection \<open>Ledger adapter with in-memory fallback\<close>

record PaymentRecord =
  pr_agent :: string
  pr_provider :: string
  pr_amount :: string
  pr_serviceType :: string
  pr_txHash :: string
  pr_timestamp :: int

record AgentStats =
  totalSpent :: string
  queryCount :: int
  firstPayment :: int
  lastPayment :: int

text \<open>The module's \<^verbatim>\<open>inMemoryLedger\<close> and \<^verbatim>\<open>inMemoryStats\<close>.\<close>

record MemoryStats =
  m_totalSpent :: int
  m_queryCount :: int
  m_firstPayment :: int
  m_lastPayment :: int

record ledger_state =
  inMemoryLedger :: "PaymentRecord list"
  inMemoryStats :: MemoryStats

definition initial_ledger_state :: ledger_state where
  "initial_ledger_state =
     \<lparr>inMemoryLedger = [],
      inMemoryStats = \<lparr>m_totalSpent = 0, m_queryCount = 0, m_firstPayment = 0, m_lastPayment = 0\<rparr>\<rparr>"

text \<open>What the deployed contract returns to a read, before the adapter converts it.\<close>

record chain_payment =
  cp_agent :: string
  cp_provider :: string
  cp_amount :: int
  cp_serviceType :: string
  cp_txHash :: string
  cp_timestamp :: int

record chain_stats =
  cs_totalSpent :: int
  cs_queryCount :: int
  cs_firstPayment :: int
  cs_lastPayment :: int

text \<open>
  What the adapter calls besides the wallet: the configured contract address, the
  constructor \<^verbatim>\<open>new ethers.Contract\<close>, \<^verbatim>\<open>ethers.id\<close>, and the three contract calls,
  each of which either answers or throws (the store is unreachable, the transaction
  reverts). \<^verbatim>\<open>contract_logPayment\<close> answers with the hash of the receipt.
\<close>

record ledger_env = wallet_env +
  config_contracts_paymentLedger :: string
  new_Contract_error :: "string option"
  ethers_id :: "string \<Rightarrow> string"
  contract_logPayment :: "string \<Rightarrow> string \<Rightarrow> string \<Rightarrow> string \<Rightarrow> string + string"
  contract_getPaymentsByAgent :: "string \<Rightarrow> string + chain_payment list"
  contract_getAgentStats :: "string \<Rightarrow> string + chain_stats"

definition hasContract :: "ledger_env \<Rightarrow> bool" where
  "hasContract env =
     (config_contracts_paymentLedger env \<noteq> [] \<and>
      config_contracts_paymentLedger env \<noteq> [] \<and>
      config_contracts_paymentLedger env \<noteq> ''deployed_contract_address'')"

text \<open>\<^verbatim>\<open>getContract\<close> and \<^verbatim>\<open>getReadOnlyContract\<close>: whether a contract object is returned.\<close>

definition getContract :: "ledger_env \<Rightarrow> bool" where
  "getContract env =
     (if \<not> hasContract env then False
      else (case getWallet env of
              Inl _ \<Rightarrow> False
            | Inr _ \<Rightarrow> new_Contract_error env = None))"

definition getReadOnlyContract :: "ledger_env \<Rightarrow> bool" where
  "getReadOnlyContract env =
     (if \<not> hasContract env then False
      else (case getProvider_error env of
              Some _ \<Rightarrow> False
            | None \<Rightarrow> new_Contract_error env = None))"

record LogResult =
  success :: bool
  onChain :: bool
  txReceipt :: "string option"

text \<open>
  The in-memory branch of \<^verbatim>\<open>logPayment\<close>. The record is pushed before
  \<^verbatim>\<open>BigInt(amount)\<close> is evaluated: when that throws, the call fails with the record in the
  ledger and the statistics untouched.
\<close>

definition logPayment_inMemory ::
  "ledger_env \<Rightarrow> ledger_state \<Rightarrow> string \<Rightarrow> string \<Rightarrow> string \<Rightarrow> string \<Rightarrow> (js_error + LogResult) \<times> ledger_state" where
  "logPayment_inMemory env st provider amount serviceType txHash =
     (let now = Date_now env div 1000 in
      case getAgentAddress env of
        Inl message \<Rightarrow> (Inl (Error message), st)
      | Inr address \<Rightarrow>
          let record = \<lparr>pr_agent = address, pr_provider = provider, pr_amount = amount,
                        pr_serviceType = serviceType, pr_txHash = txHash, pr_timestamp = now\<rparr>;
              st1 = st\<lparr>inMemoryLedger := inMemoryLedger st @ [record]\<rparr>
          in
          (case BigInt env amount of
             Inl message \<Rightarrow> (Inl (Error message), st1)
           | Inr amtBig \<Rightarrow>
               (Inr \<lparr>success = True, onChain = False, txReceipt = None\<rparr>,
                st1\<lparr>inMemoryStats :=
                      \<lparr>m_totalSpent = m_totalSpent (inMemoryStats st) + amtBig,
                       m_queryCount = m_queryCount (inMemoryStats st) + 1,
                       m_firstPayment = (if m_firstPayment (inMemoryStats st) = 0 then now
                                         else m_firstPayment (inMemoryStats st)),
                       m_lastPayment = now\<rparr>\<rparr>)))"

definition logPayment ::
  "ledger_env \<Rightarrow> ledger_state \<Rightarrow> string \<Rightarrow> string \<Rightarrow> string \<Rightarrow> string \<Rightarrow> (js_error + LogResult) \<times> ledger_state" where
  "logPayment env st provider amount serviceType txHash =
     (if getContract env then
        (case contract_logPayment env provider amount serviceType (ethers_id env txHash) of
           Inr receipt \<Rightarrow> (Inr \<lparr>success = True, onChain = True, txReceipt = Some receipt\<rparr>, st)
         | Inl _ \<Rightarrow> logPayment_inMemory env st provider amount serviceType txHash)
      else logPayment_inMemory env st provider amount serviceType txHash)"

definition record_of_chain :: "chain_payment \<Rightarrow> PaymentRecord" where
  "record_of_chain p =
     \<lparr>pr_agent = cp_agent p, pr_provider = cp_provider p, pr_amount = Number_toString (cp_amount p),
      pr_serviceType = cp_serviceType p, pr_txHash = cp_txHash p,
      pr_timestamp = Number_of_BigInt (cp_timestamp p)\<rparr>"

text \<open>\<^verbatim>\<open>agentAddress || getAgentAddress()\<close>\<close>

definition address_or_own :: "ledger_env \<Rightarrow> string option \<Rightarrow> string + string" where
  "address_or_own env agentAddress =
     (case agentAddress of
        None \<Rightarrow> getAgentAddress env
      | Some a \<Rightarrow> if a \<noteq> [] then Inr a else getAgentAddress env)"

definition inMemory_payments :: "ledger_state \<Rightarrow> string \<Rightarrow> PaymentRecord list" where
  "inMemory_payments st addr =
     filter (\<lambda>r. toLowerCase (pr_agent r) = toLowerCase addr) (inMemoryLedger st)"

definition getPaymentsByAgent ::
  "ledger_env \<Rightarrow> ledger_state \<Rightarrow> string option \<Rightarrow> js_error + PaymentRecord list" where
  "getPaymentsByAgent env st agentAddress =
     (case address_or_own env agentAddress of
        Inl message \<Rightarrow> Inl (Error message)
      | Inr addr \<Rightarrow>
          if getReadOnlyContract env then
            (case contract_getPaymentsByAgent env addr of
               Inr payments \<Rightarrow> Inr (map record_of_chain payments)
             | Inl _ \<Rightarrow> Inr (inMemory_payments st addr))
          else Inr (inMemory_payments st addr))"

definition inMemory_stats :: "ledger_state \<Rightarrow> AgentStats" where
  "inMemory_stats st =
     \<lparr>totalSpent = Number_toString (m_totalSpent (inMemoryStats st)),
      queryCount = m_queryCount (inMemoryStats st),
      firstPayment = m_firstPayment (inMemoryStats st),
      lastPayment = m_lastPayment (inMemoryStats st)\<rparr>"

definition getAgentStats ::
  "ledger_env \<Rightarrow> ledger_state \<Rightarrow> string option \<Rightarrow> js_error + AgentStats" where
  "getAgentStats env st agentAddress =
     (case address_or_own env agentAddress of
        Inl message \<Rightarrow> Inl (Error message)
      | Inr addr \<Rightarrow>
          if getReadOnlyContract env then
            (case contract_getAgentStats env addr of
               Inr stats \<Rightarrow>
                 Inr \<lparr>totalSpent = Number_toString (cs_totalSpent stats),
                      queryCount = Number_of_BigInt (cs_queryCount stats),
                      firstPayment = Number_of_BigInt (cs_firstPayment stats),
                      lastPayment = Number_of_BigInt (cs_lastPayment stats)\<rparr>
             | Inl _ \<Rightarrow> Inr (inMemory_stats st))
          else Inr (inMemory_stats st))"

subsection \<open>Example states of the registry\<close>

text \<open>
  A deployed registry whose payment ledger is the account \<open>0x1ED\<close>, and the same registry
  with the agent \<open>0xA1\<close> registered on an earlier day (day 19674) with 900,000 spent.
\<close>

definition scenario_registry :: AgentRegistry where
  "scenario_registry =
     \<lparr>agents = (\<lambda>_. Agent_zero), agentList = [], paymentLedger = 0x1ED, owner = 0x0B0\<rparr>"

definition stale_registry :: AgentRegistry where
  "stale_registry =
     scenario_registry\<lparr>agents := (agents scenario_registry)(0xA1 :=
        \<lparr>wallet = 0xA1, name = ''bot'', dailyBudget = 1000000, spentToday = 900000,
         lastResetDay = 19674, active = True, registeredAt = 1699900000\<rparr>),
        agentList := [0xA1]\<rparr>"

subsection \<open>Example proofs\<close>

text \<open>
  A proof for the resource \<^verbatim>\<open>/api/x402/price/0x7\<close> that expires at 1700000300, and
  variants of it: expiring at the very second of the check, expired one second before it,
  underpaid and for another resource, and with the sender written in upper case.
\<close>

definition example_proof :: PaymentProof where
  "example_proof =
     \<lparr>p_signature = ''0x516'', p_from = ''0xabcd'', p_to = ''0x9907'', p_amount = ''100'',
      p_resource = ''/api/x402/price/0x7'', p_nonce = 421337, p_expiry = 1700000300\<rparr>"

definition boundary_proof :: PaymentProof where
  "boundary_proof = example_proof\<lparr>p_expiry := 1700000000\<rparr>"

definition expired_proof :: PaymentProof where
  "expired_proof = example_proof\<lparr>p_expiry := 1699999999\<rparr>"

definition failing_proof :: PaymentProof where
  "failing_proof = example_proof\<lparr>p_amount := ''10'', p_resource := ''/api/x402/whale/0x7''\<rparr>"

text \<open>
  Proofs of one payer with a full-length address, numbered by their nonce, and a runtime
  whose signature check recovers that payer.
\<close>

definition payer_proof :: "int \<Rightarrow> PaymentProof" where
  "payer_proof n =
     \<lparr>p_signature = ''0x516'', p_from = ''0x52908400098527886e0f7030069857d2e4169ee7'',
      p_to = ''0x9907'', p_amount = ''100'', p_resource = ''/api/x402/price/0x7'',
      p_nonce = n, p_expiry = 1700000300\<rparr>"

definition payer_runtime :: "int \<Rightarrow> runtime" where
  "payer_runtime ms = example_runtime ms 0 ''0x52908400098527886E0F7030069857D2E4169EE7''"

definition upper_case_proof :: PaymentProof where
  "upper_case_proof = example_proof\<lparr>p_from := ''0xABCD''\<rparr>"

text \<open>
  The in-memory aggregates match the in-memory ledger: the total is the sum of the amounts
  of the records (an amount that does not convert counts as 0) and the count is their
  number.
\<close>

definition amount_value :: "(string \<Rightarrow> string + int) \<Rightarrow> PaymentRecord \<Rightarrow> int" where
  "amount_value conv r = (case conv (pr_amount r) of Inl _ \<Rightarrow> 0 | Inr n \<Rightarrow> n)"

definition aggregates_match :: "(string \<Rightarrow> string + int) \<Rightarrow> ledger_state \<Rightarrow> bool" where
  "aggregates_match conv st =
     (m_totalSpent (inMemoryStats st) = sum_list (map (amount_value conv) (inMemoryLedger st)) \<and>
      m_queryCount (inMemoryStats st) = int (length (inMemoryLedger st)))"

subsection \<open>Example client, server and ledger\<close>








definition example_ledger :: "string \<Rightarrow> ledger_env" where
  "example_ledger contractAddress =
     \<lparr>Date_now = 1700000000123, Math_random = 1 / 4, BigInt = BigInt_decimal,
      verifyTypedData = (\<lambda>_ _. Inr ''0xAbCd''),
      config_wallet_privateKey = ''0x5ec'', getProvider_error = None, new_Wallet = Inr ''0xAbCd'',
      signTypedData = (\<lambda>_ _ _ _ _ _. Inr ''0x516''),
      config_contracts_paymentLedger = contractAddress, new_Contract_error = None,
      ethers_id = (\<lambda>s. s),
      contract_logPayment = (\<lambda>_ _ _ _. Inl ''could not detect network''),
      contract_getPaymentsByAgent = (\<lambda>_. Inl ''could not detect network''),
      contract_getAgentStats = (\<lambda>_. Inl ''could not detect network'')\<rparr>"

definition keyless_ledger :: ledger_env where
  "keyless_ledger = (example_ledger ''0x1ED9E5'')\<lparr>config_wallet_privateKey := []\<rparr>"

definition fallback_state :: ledger_state where
  "fallback_state =
     \<lparr>inMemoryLedger =
        [\<lparr>pr_agent = ''0xAbCd'', pr_provider = ''0x01'', pr_amount = ''5'',
          pr_serviceType = ''price'', pr_txHash = ''price-0x7'', pr_timestamp = 1700000000\<rparr>],
      inMemoryStats = \<lparr>m_totalSpent = 5, m_queryCount = 1, m_firstPayment = 1700000000,
                       m_lastPayment = 1700000000\<rparr>\<rparr>"

section \<open>Verification\<close>

subsection \<open>Checked arithmetic\<close>

lemma unat_uint256_bound: "unat (x :: uint256) < 2 ^ 256"
  using unsigned_less [of x, where ?'a = nat] by simp

lemma checked_add_le_iff:
  "(\<exists>t. checked_add a b = Inr t \<and> t \<le> c) = (unat a + unat b \<le> unat c)"
proof
  assume "\<exists>t. checked_add a b = Inr t \<and> t \<le> c"
  then obtain t where t: "checked_add a b = Inr t" "t \<le> c" by blast
  then have "unat t = unat a + unat b"
    by (auto simp: checked_add_def unat_word_ariths split: if_splits)
  with t show "unat a + unat b \<le> unat c" by (simp add: word_le_nat_alt)
next
  assume le: "unat a + unat b \<le> unat c"
  have "unat c < 2 ^ 256" by (rule unat_uint256_bound)
  with le have lt: "unat a + unat b < 2 ^ 256" by linarith
  then have "unat (a + b) = unat a + unat b" by (simp add: unat_word_ariths)
  with le lt show "\<exists>t. checked_add a b = Inr t \<and> t \<le> c"
    by (simp add: checked_add_def word_le_nat_alt)
qed

subsection \<open>Budget registry\<close>

lemma canSpend_True_iff:
  "(canSpend env s agent amount = Inr True) =
   (wallet (agents s agent) \<noteq> 0 \<and> active (agents s agent) \<and>
    unat (effectiveSpent env (agents s agent)) + unat amount \<le> unat (dailyBudget (agents s agent)))"
proof -
  have "(canSpend env s agent amount = Inr True) =
        (wallet (agents s agent) \<noteq> 0 \<and> active (agents s agent) \<and>
         (\<exists>t. checked_add (effectiveSpent env (agents s agent)) amount = Inr t \<and>
              t \<le> dailyBudget (agents s agent)))"
    by (auto simp: canSpend_def Let_def effectiveSpent_def split: sum.splits)
  then show ?thesis by (simp only: checked_add_le_iff)
qed

lemma recordSpend_Inr_iff:
  "(\<exists>s'. recordSpend env s agent amount = Inr s') =
   (msg_sender env = paymentLedger s \<and> wallet (agents s agent) \<noteq> 0 \<and> active (agents s agent) \<and>
    unat (effectiveSpent env (agents s agent)) + unat amount \<le> unat (dailyBudget (agents s agent)))"
proof -
  have "(\<exists>s'. recordSpend env s agent amount = Inr s') =
        (msg_sender env = paymentLedger s \<and> wallet (agents s agent) \<noteq> 0 \<and> active (agents s agent) \<and>
         (\<exists>t. checked_add (effectiveSpent env (agents s agent)) amount = Inr t \<and>
              t \<le> dailyBudget (agents s agent)))"
    by (auto simp: recordSpend_def Let_def effectiveSpent_def split: sum.splits)
  then show ?thesis by (simp only: checked_add_le_iff)
qed

lemma recordSpend_result:
  assumes "recordSpend env s agent amount = Inr s'"
  shows "spentToday (agents s' agent) \<le> dailyBudget (agents s' agent)"
    and "dailyBudget (agents s' a) = dailyBudget (agents s a)"
    and "a \<noteq> agent \<Longrightarrow> agents s' a = agents s a"
  using assms
  by (auto simp: recordSpend_def Let_def checked_add_def split: sum.splits if_splits)

lemma recordSpend_seq_budget:
  "spentToday (agents s a) \<le> dailyBudget (agents s a) \<Longrightarrow>
   spentToday (agents (recordSpend_seq s cs) a) \<le> dailyBudget (agents s a) \<and>
   dailyBudget (agents (recordSpend_seq s cs) a) = dailyBudget (agents s a)"
proof (induction cs arbitrary: s)
  case Nil
  then show ?case by simp
next
  case (Cons c cs)
  obtain env agent amount where c: "c = (env, agent, amount)" by (cases c)
  show ?case
  proof (cases "recordSpend env s agent amount")
    case (Inl e)
    then have eq: "recordSpend_seq s (c # cs) = recordSpend_seq s cs"
      using c by simp
    show ?thesis unfolding eq by (rule Cons.IH [OF Cons.prems])
  next
    case (Inr s')
    then have eq: "recordSpend_seq s (c # cs) = recordSpend_seq s' cs"
      using c by simp
    have b: "dailyBudget (agents s' a) = dailyBudget (agents s a)"
      by (rule recordSpend_result(2) [OF Inr])
    have "spentToday (agents s' a) \<le> dailyBudget (agents s' a)"
    proof (cases "a = agent")
      case True
      then show ?thesis using recordSpend_result(1) [OF Inr] by simp
    next
      case False
      then show ?thesis using recordSpend_result(3) [OF Inr False] Cons.prems by simp
    qed
    from Cons.IH [OF this] show ?thesis unfolding eq b .
  qed
qed

lemma registerAgent_result:
  assumes "registerAgent env s nm B = Inr s1"
  shows "dailyBudget (agents s1 (msg_sender env)) = B"
    and "spentToday (agents s1 (msg_sender env)) = 0"
  using assms by (auto simp: registerAgent_def split: if_splits)

text \<open>
  Claim C2. An agent registers with daily budget \<open>B\<close>. After any sequence of
  \<^verbatim>\<open>recordSpend\<close> transactions (of any sender, for any agent, at any block times; the
  ones that revert change nothing) the agent's budget is still \<open>B\<close> and its
  \<open>spentToday\<close> is at most \<open>B\<close>. A further \<^verbatim>\<open>recordSpend\<close> whose amount added to the
  effective spent exceeds \<open>B\<close> reverts, and the storage, \<open>spentToday\<close> included, is as
  before. The witness is Scenario A: budget 1,000,000; 500,000 is recorded; 600,000 on
  the same day is rejected and \<open>spentToday\<close> stays 500,000.
\<close>

theorem recordSpend_keeps_daily_budget:
  assumes reg: "registerAgent env0 s0 nm B = Inr s1"
    and run: "s = recordSpend_seq s1 calls"
  shows "dailyBudget (agents s (msg_sender env0)) = B \<and>
         spentToday (agents s (msg_sender env0)) \<le> B \<and>
         (unat (effectiveSpent env (agents s (msg_sender env0))) + unat amount > unat B \<longrightarrow>
            (\<exists>e. recordSpend env s (msg_sender env0) amount = Inl e) \<and>
            recordSpend_seq s [(env, msg_sender env0, amount)] = s)"
proof -
  let ?a = "msg_sender env0"
  have "spentToday (agents s1 ?a) \<le> dailyBudget (agents s1 ?a)"
    using registerAgent_result [OF reg] by simp
  from recordSpend_seq_budget [OF this, of calls]
  have "spentToday (agents (recordSpend_seq s1 calls) ?a) \<le> dailyBudget (agents s1 ?a)"
    and "dailyBudget (agents (recordSpend_seq s1 calls) ?a) = dailyBudget (agents s1 ?a)"
    by blast+
  then have inv: "dailyBudget (agents s ?a) = B" "spentToday (agents s ?a) \<le> B"
    unfolding run registerAgent_result(1) [OF reg] by blast+
  have rej: "(\<exists>e. recordSpend env s ?a amount = Inl e) \<and> recordSpend_seq s [(env, ?a, amount)] = s"
    if over: "unat (effectiveSpent env (agents s ?a)) + unat amount > unat B"
  proof -
    have "\<not> (\<exists>s'. recordSpend env s ?a amount = Inr s')"
      using over inv(1) by (simp add: recordSpend_Inr_iff)
    then obtain e where "recordSpend env s ?a amount = Inl e"
      by (cases "recordSpend env s ?a amount") auto
    then show ?thesis by simp
  qed
  from inv rej show ?thesis by blast
qed

theorem recordSpend_keeps_daily_budget_witness:
  "\<exists>s1 s.
     registerAgent \<lparr>msg_sender = 0xA1, block_timestamp = 1700000000\<rparr> scenario_registry ''bot'' 1000000 = Inr s1 \<and>
     s = recordSpend_seq s1 [(\<lparr>msg_sender = 0x1ED, block_timestamp = 1700000100\<rparr>, 0xA1, 500000)] \<and>
     spentToday (agents s 0xA1) = 500000 \<and>
     dailyBudget (agents s 0xA1) = 1000000 \<and>
     spentToday (agents s 0xA1) \<le> 1000000 \<and>
     unat (effectiveSpent \<lparr>msg_sender = 0x1ED, block_timestamp = 1700000200\<rparr> (agents s 0xA1)) + unat (600000 :: uint256)
       > unat (1000000 :: uint256) \<and>
     recordSpend \<lparr>msg_sender = 0x1ED, block_timestamp = 1700000200\<rparr> s 0xA1 600000
       = Inl (Require ''AgentRegistry: exceeds daily budget'') \<and>
     spentToday (agents (recordSpend_seq s [(\<lparr>msg_sender = 0x1ED, block_timestamp = 1700000200\<rparr>, 0xA1, 600000)]) 0xA1)
       = 500000"
proof -
  let ?env0 = "\<lparr>msg_sender = 0xA1, block_timestamp = 1700000000\<rparr> :: tx_env"
  let ?env1 = "\<lparr>msg_sender = 0x1ED, block_timestamp = 1700000100\<rparr> :: tx_env"
  let ?env2 = "\<lparr>msg_sender = 0x1ED, block_timestamp = 1700000200\<rparr> :: tx_env"
  obtain s1 where reg: "registerAgent ?env0 scenario_registry ''bot'' 1000000 = Inr s1"
    by (simp add: registerAgent_def scenario_registry_def Agent_zero_def)
  define s where "s = recordSpend_seq s1 [(?env1, 0xA1, 500000)]"
  from reg have s1: "s1 = scenario_registry\<lparr>agents := (agents scenario_registry)(0xA1 :=
                      \<lparr>wallet = 0xA1, name = ''bot'', dailyBudget = 1000000, spentToday = 0,
                       lastResetDay = 1700000000 div one_days, active = True,
                       registeredAt = 1700000000\<rparr>),
                    agentList := agentList scenario_registry @ [0xA1]\<rparr>"
    by (simp add: registerAgent_def scenario_registry_def Agent_zero_def)
  have spent: "spentToday (agents s 0xA1) = 500000"
    by (simp add: s_def s1 recordSpend_def scenario_registry_def one_days_def checked_add_def Let_def)
  have day: "lastResetDay (agents s 0xA1) = 19675"
    by (simp add: s_def s1 recordSpend_def scenario_registry_def one_days_def checked_add_def Let_def)
  have over: "unat (effectiveSpent ?env2 (agents s 0xA1)) + unat (600000 :: uint256) > unat (1000000 :: uint256)"
    by (simp add: effectiveSpent_def spent day one_days_def)
  have rej: "recordSpend ?env2 s 0xA1 600000 = Inl (Require ''AgentRegistry: exceeds daily budget'')"
    by (simp add: s_def s1 recordSpend_def scenario_registry_def one_days_def checked_add_def Let_def)
  from recordSpend_keeps_daily_budget [OF reg s_def, of ?env2 600000] over spent rej
  show ?thesis using reg s_def by auto
qed

text \<open>
  Claim C4. Called by the payment ledger (the only caller \<^verbatim>\<open>recordSpend\<close> admits) at
  one block timestamp, \<^verbatim>\<open>canSpend\<close> returns true exactly when \<^verbatim>\<open>recordSpend\<close>
  succeeds, for every agent and amount. For a registered, active agent both compare the
  effective spent plus the amount with the daily budget (as numbers: an overflowing sum
  makes both revert), and when \<open>lastResetDay\<close> is before today the stored \<open>spentToday\<close>
  plays no part: the answer is \<open>amount \<le> dailyBudget\<close>.
\<close>

theorem canSpend_agrees_with_recordSpend:
  assumes ledger: "msg_sender env = paymentLedger s"
  shows "((canSpend env s agent amount = Inr True) \<longleftrightarrow> (\<exists>s'. recordSpend env s agent amount = Inr s')) \<and>
         (wallet (agents s agent) \<noteq> 0 \<and> active (agents s agent) \<longrightarrow>
            ((canSpend env s agent amount = Inr True) \<longleftrightarrow>
             unat (effectiveSpent env (agents s agent)) + unat amount \<le> unat (dailyBudget (agents s agent)))) \<and>
         (wallet (agents s agent) \<noteq> 0 \<and> active (agents s agent) \<and>
          lastResetDay (agents s agent) < block_timestamp env div one_days \<longrightarrow>
            canSpend env s agent amount = Inr (amount \<le> dailyBudget (agents s agent)) \<and>
            ((\<exists>s'. recordSpend env s agent amount = Inr s') \<longleftrightarrow> amount \<le> dailyBudget (agents s agent)))"
proof -
  have a: "(canSpend env s agent amount = Inr True) \<longleftrightarrow> (\<exists>s'. recordSpend env s agent amount = Inr s')"
    using ledger by (simp only: canSpend_True_iff recordSpend_Inr_iff) simp
  have b: "(canSpend env s agent amount = Inr True) \<longleftrightarrow>
           unat (effectiveSpent env (agents s agent)) + unat amount \<le> unat (dailyBudget (agents s agent))"
    if "wallet (agents s agent) \<noteq> 0 \<and> active (agents s agent)"
    using that by (simp only: canSpend_True_iff) simp
  have c: "canSpend env s agent amount = Inr (amount \<le> dailyBudget (agents s agent)) \<and>
           ((\<exists>s'. recordSpend env s agent amount = Inr s') \<longleftrightarrow> amount \<le> dailyBudget (agents s agent))"
    if h: "wallet (agents s agent) \<noteq> 0 \<and> active (agents s agent) \<and>
           lastResetDay (agents s agent) < block_timestamp env div one_days"
  proof -
    have lt: "unat (0 :: uint256) + unat amount < 2 ^ 256"
      using unat_uint256_bound [of amount] by simp
    have c1: "canSpend env s agent amount = Inr (amount \<le> dailyBudget (agents s agent))"
      using h lt by (simp add: canSpend_def Let_def checked_add_def)
    have "(\<exists>s'. recordSpend env s agent amount = Inr s') \<longleftrightarrow> amount \<le> dailyBudget (agents s agent)"
      using h ledger by (simp add: recordSpend_Inr_iff effectiveSpent_def word_le_nat_alt)
    with c1 show ?thesis by simp
  qed
  from a b c show ?thesis by blast
qed

theorem canSpend_agrees_with_recordSpend_witness:
  "msg_sender \<lparr>msg_sender = 0x1ED, block_timestamp = 1700000200\<rparr> = paymentLedger stale_registry \<and>
   wallet (agents stale_registry 0xA1) \<noteq> 0 \<and> active (agents stale_registry 0xA1) \<and>
   lastResetDay (agents stale_registry 0xA1) < 1700000200 div one_days \<and>
   spentToday (agents stale_registry 0xA1) = 900000 \<and>
   canSpend \<lparr>msg_sender = 0x1ED, block_timestamp = 1700000200\<rparr> stale_registry 0xA1 500000 = Inr True \<and>
   (\<exists>s'. recordSpend \<lparr>msg_sender = 0x1ED, block_timestamp = 1700000200\<rparr> stale_registry 0xA1 500000 = Inr s')"
proof -
  let ?env = "\<lparr>msg_sender = 0x1ED, block_timestamp = 1700000200\<rparr> :: tx_env"
  have ledger: "msg_sender ?env = paymentLedger stale_registry"
    by (simp add: stale_registry_def scenario_registry_def)
  have agent: "wallet (agents stale_registry 0xA1) \<noteq> 0 \<and> active (agents stale_registry 0xA1) \<and>
               lastResetDay (agents stale_registry 0xA1) < block_timestamp ?env div one_days"
    by (simp add: stale_registry_def scenario_registry_def one_days_def)
  have budget: "(500000 :: uint256) \<le> dailyBudget (agents stale_registry 0xA1)"
    by (simp add: stale_registry_def scenario_registry_def)
  have stored: "spentToday (agents stale_registry 0xA1) = 900000"
    by (simp add: stale_registry_def scenario_registry_def)
  from canSpend_agrees_with_recordSpend [OF ledger, of "0xA1" 500000] agent budget
  have "canSpend ?env stale_registry 0xA1 500000 = Inr True \<and>
        (\<exists>s'. recordSpend ?env stale_registry 0xA1 500000 = Inr s')"
    by simp
  with ledger agent stored show ?thesis by simp
qed

subsection \<open>Double-precision numbers\<close>

lemma round_half_even_near: "\<bar>of_int (round_half_even q) - q\<bar> \<le> 1 / 2"
proof -
  have "of_int \<lfloor>q\<rfloor> \<le> q" "q < of_int \<lfloor>q\<rfloor> + 1" by linarith+
  then show ?thesis
    by (auto simp: round_half_even_def Let_def)
qed

lemma round_half_even_nonneg: "0 \<le> q \<Longrightarrow> 0 \<le> round_half_even q"
  by (auto simp: round_half_even_def Let_def)

lemma round_half_even_of_int: "round_half_even (of_int m) = m"
  by (simp add: round_half_even_def)

lemma floor_log2_eq:
  assumes "2 ^ n \<le> x" and "x < 2 ^ Suc n"
  shows "\<lfloor>log 2 x\<rfloor> = int n"
proof -
  have "(0 :: real) < 2 ^ n" by simp
  with assms(1) have pos: "0 < x" by linarith
  have "real n \<le> log 2 x"
    using assms(1) pos by (simp add: le_log_iff powr_realpow)
  moreover have "log 2 x < real (Suc n)"
    using assms(2) pos by (simp only: log_less_iff powr_realpow)
  ultimately show ?thesis by (simp add: floor_eq_iff)
qed

lemma to_double_binade:
  assumes "2 ^ n \<le> x" and "x < 2 ^ Suc n"
  shows "to_double x = of_int (round_half_even (x * 2 ^ 52 / 2 ^ n)) * 2 ^ n / 2 ^ 52"
proof -
  have "(0 :: real) < 2 ^ n" by simp
  with assms(1) have pos: "0 < x" by linarith
  have e: "\<lfloor>log 2 x\<rfloor> = int n" by (rule floor_log2_eq [OF assms])
  have u: "2 powr (of_int (int n) - 52) = (2 ^ n / 2 ^ 52 :: real)"
    by (simp add: powr_diff powr_realpow)
  have "to_double x = of_int (round_half_even (x / (2 ^ n / 2 ^ 52))) * (2 ^ n / 2 ^ 52)"
    using pos by (simp add: to_double_def e u Let_def del: of_int_of_nat_eq)
  then show ?thesis by (simp add: field_simps)
qed

lemma to_double_nonneg: "0 \<le> x \<Longrightarrow> 0 \<le> to_double x"
  by (auto simp: to_double_def Let_def intro!: mult_nonneg_nonneg round_half_even_nonneg)

lemma to_double_upper:
  assumes "0 < x" and "x < 2 ^ 20"
  shows "to_double x \<le> x + 1 / 2 ^ 34"
proof -
  define u :: real where "u = 2 powr (of_int \<lfloor>log 2 \<bar>x\<bar>\<rfloor> - 52)"
  have upos: "0 < u" by (simp add: u_def)
  have "log 2 x < 20"
    using assms by (simp add: log_less_iff powr_realpow)
  then have "\<lfloor>log 2 \<bar>x\<bar>\<rfloor> \<le> 19" using assms(1) by (simp add: floor_le_iff)
  then have "of_int \<lfloor>log 2 \<bar>x\<bar>\<rfloor> - 52 \<le> (- 33 :: real)" by linarith
  then have "u \<le> 2 powr (- 33)" unfolding u_def by (rule powr_mono) simp
  also have "\<dots> = 1 / 2 ^ 33" by (simp add: powr_minus powr_realpow divide_simps)
  finally have ule: "u \<le> 1 / 2 ^ 33" .
  have td: "to_double x = of_int (round_half_even (x / u)) * u"
    using assms(1) by (simp add: to_double_def u_def Let_def)
  have "of_int (round_half_even (x / u)) \<le> x / u + 1 / 2"
    using round_half_even_near [of "x / u"] by linarith
  then have "of_int (round_half_even (x / u)) * u \<le> (x / u + 1 / 2) * u"
    using upos by (simp add: mult_right_mono)
  also have "\<dots> = x + u / 2" using upos by (simp add: field_simps)
  also have "\<dots> \<le> x + 1 / 2 ^ 34" using ule by simp
  finally show ?thesis by (simp add: td)
qed

lemma floor_to_double_random:
  assumes "0 \<le> r" and "r \<le> 1 - 1 / 2 ^ 53"
  shows "0 \<le> \<lfloor>to_double (r * 1000000)\<rfloor>" and "\<lfloor>to_double (r * 1000000)\<rfloor> \<le> 999999"
proof -
  have "0 \<le> to_double (r * 1000000)" using assms(1) by (simp add: to_double_nonneg)
  then show "0 \<le> \<lfloor>to_double (r * 1000000)\<rfloor>" by simp
  have "to_double (r * 1000000) < 1000000"
  proof (cases "r = 0")
    case True
    then show ?thesis by (simp add: to_double_def)
  next
    case False
    then have pos: "0 < r * 1000000" using assms(1) by simp
    have le: "r * 1000000 \<le> 1000000 - 1000000 / 2 ^ 53" using assms(2) by (simp add: field_simps)
    then have "r * 1000000 < 2 ^ 20" by simp
    from to_double_upper [OF pos this] le
    have "to_double (r * 1000000) \<le> 1000000 - 1000000 / 2 ^ 53 + 1 / 2 ^ 34" by linarith
    also have "\<dots> < 1000000" by simp
    finally show ?thesis .
  qed
  then show "\<lfloor>to_double (r * 1000000)\<rfloor> \<le> 999999" by (simp add: floor_le_iff)
qed

lemma to_double_of_int_exact:
  assumes "0 \<le> n" and "n < 2 ^ 53"
  shows "to_double (of_int n) = of_int n"
proof (cases "n = 0")
  case True
  then show ?thesis by (simp add: to_double_def)
next
  case False
  with assms(1) have pos: "0 < n" by simp
  define e where "e = \<lfloor>log 2 (real_of_int n)\<rfloor>"
  have "0 \<le> log 2 (real_of_int n)" using pos by simp
  then have e0: "0 \<le> e" by (simp add: e_def)
  have "real_of_int n < 2 ^ 53" using assms(2) by (metis of_int_less_iff of_int_numeral of_int_power)
  then have "log 2 (real_of_int n) < 53"
    using pos by (simp add: log_less_iff powr_realpow)
  then have e52: "e \<le> 52" by (simp add: e_def floor_le_iff)
  define k where "k = nat (52 - e)"
  have "real_of_int e - 52 = - real k" using e52 by (simp add: k_def)
  then have u: "2 powr (real_of_int e - 52) = (1 / 2 ^ k :: real)"
    by (simp add: powr_minus powr_realpow divide_simps)
  have "real_of_int n / (1 / 2 ^ k) = of_int (n * 2 ^ k)" by simp
  then have "round_half_even (real_of_int n / (1 / 2 ^ k)) = n * 2 ^ k"
    by (simp only: round_half_even_of_int)
  then show ?thesis
    using pos by (simp add: to_double_def Let_def e_def [symmetric] u)
qed

lemma Number_of_BigInt_exact: "0 \<le> n \<Longrightarrow> n < 2 ^ 53 \<Longrightarrow> Number_of_BigInt n = n"
  by (simp add: Number_of_BigInt_def to_double_of_int_exact)

lemma floor_to_double_quarter: "\<lfloor>to_double (1 / 4 * 1000000)\<rfloor> = 250000"
proof -
  have "to_double (1 / 4 * 1000000)
      = of_int (round_half_even (1 / 4 * 1000000 * 2 ^ 52 / 2 ^ 17)) * 2 ^ 17 / 2 ^ 52"
    by (rule to_double_binade) simp_all
  then show ?thesis by (simp add: round_half_even_def Let_def)
qed

lemma floor_to_double_three_quarters: "\<lfloor>to_double (3 / 4 * 1000000)\<rfloor> = 750000"
proof -
  have "to_double (3 / 4 * 1000000)
      = of_int (round_half_even (3 / 4 * 1000000 * 2 ^ 52 / 2 ^ 19)) * 2 ^ 19 / 2 ^ 52"
    by (rule to_double_binade) simp_all
  then show ?thesis by (simp add: round_half_even_def Let_def)
qed

subsection \<open>Proof verifier\<close>

text \<open>
  The decimal rendering of a number can be read back, so different nonces have different
  renderings; and a key splits at its first dash when the sender has none.
\<close>

lemma nat_toString_digit: "n < 10 \<Longrightarrow> nat_toString n = [digit_char n]"
  by (simp add: nat_toString.simps)

lemma nat_toString_step:
  "\<not> n < 10 \<Longrightarrow> nat_toString n = nat_toString (n div 10) @ [digit_char (n mod 10)]"
  by (subst nat_toString.simps) simp

lemma digit_char_value:
  assumes "d < 10"
  shows "map_of (zip ''0123456789'' [0, 1, 2, 3, 4, 5, 6, 7, 8, 9 :: nat]) (digit_char d) = Some d"
proof -
  from assms have "d \<in> {0, 1, 2, 3, 4, 5, 6, 7, 8, 9}" by auto
  then show ?thesis by (auto simp: digit_char_def)
qed

lemma decimal_value_snoc:
  "d < 10 \<Longrightarrow>
   decimal_value acc (xs @ [digit_char d]) = map_option (\<lambda>v. 10 * v + d) (decimal_value acc xs)"
proof (induction xs arbitrary: acc)
  case Nil
  then show ?case using digit_char_value [of d] by simp
next
  case (Cons x xs)
  then show ?case by (simp split: option.splits)
qed

lemma decimal_value_nat_toString: "decimal_value 0 (nat_toString n) = Some n"
proof (induction n rule: nat_toString.induct)
  case (1 n)
  show ?case
  proof (cases "n < 10")
    case True
    then show ?thesis using digit_char_value [of n] by (simp add: nat_toString_digit)
  next
    case False
    then have "decimal_value 0 (nat_toString (n div 10)) = Some (n div 10)" by (rule "1.IH")
    then show ?thesis using False by (simp add: nat_toString_step decimal_value_snoc)
  qed
qed

lemma nat_toString_inj:
  assumes "nat_toString m = nat_toString n"
  shows "m = n"
proof -
  have "Some m = decimal_value 0 (nat_toString m)"
    by (simp only: decimal_value_nat_toString)
  also have "\<dots> = decimal_value 0 (nat_toString n)"
    by (simp only: assms)
  also have "\<dots> = Some n"
    by (rule decimal_value_nat_toString)
  finally show ?thesis by simp
qed

lemma decimal_value_dash: "decimal_value acc (CHR ''-'' # xs) = None"
  by simp

lemma nat_toString_no_sign: "nat_toString n \<noteq> CHR ''-'' # xs"
proof
  assume "nat_toString n = CHR ''-'' # xs"
  then have "decimal_value 0 (nat_toString n) = decimal_value 0 (CHR ''-'' # xs)"
    by (rule arg_cong)
  then show False
    by (simp only: decimal_value_nat_toString decimal_value_dash) simp
qed

lemma Number_toString_inj:
  assumes eq: "Number_toString i = Number_toString j"
  shows "i = j"
proof (cases "i < 0")
  case True
  show ?thesis
  proof (cases "j < 0")
    case j: True
    from eq True j have "nat_toString (nat (- i)) = nat_toString (nat (- j))"
      by (simp add: Number_toString_def)
    then have "nat (- i) = nat (- j)" by (rule nat_toString_inj)
    with True j show ?thesis by simp
  next
    case j: False
    from eq True j have "nat_toString (nat j) = CHR ''-'' # nat_toString (nat (- i))"
      by (simp add: Number_toString_def)
    then show ?thesis by (simp add: nat_toString_no_sign)
  qed
next
  case False
  show ?thesis
  proof (cases "j < 0")
    case j: True
    from eq False j have "nat_toString (nat i) = CHR ''-'' # nat_toString (nat (- j))"
      by (simp add: Number_toString_def)
    then show ?thesis by (simp add: nat_toString_no_sign)
  next
    case j: False
    from eq False j have "nat_toString (nat i) = nat_toString (nat j)"
      by (simp add: Number_toString_def)
    then have "nat i = nat j" by (rule nat_toString_inj)
    with False j show ?thesis by simp
  qed
qed

lemma split_at_first_dash:
  "CHR ''-'' \<notin> set a \<Longrightarrow> CHR ''-'' \<notin> set b \<Longrightarrow> a @ CHR ''-'' # s = b @ CHR ''-'' # t \<Longrightarrow>
   a = b \<and> s = t"
proof (induction a arbitrary: b)
  case Nil
  then show ?case by (cases b) auto
next
  case (Cons x a)
  then show ?case by (cases b) auto
qed

lemma nonceKey_inj:
  assumes "CHR ''-'' \<notin> set (p_from p)" and "CHR ''-'' \<notin> set (p_from q)"
    and "nonceKey p = nonceKey q"
  shows "p_from p = p_from q \<and> p_nonce p = p_nonce q"
proof -
  from assms(3) have "p_from p @ CHR ''-'' # Number_toString (p_nonce p)
                    = p_from q @ CHR ''-'' # Number_toString (p_nonce q)"
    by (simp add: nonceKey_def)
  from split_at_first_dash [OF assms(1,2) this]
  have "p_from p = p_from q" and "Number_toString (p_nonce p) = Number_toString (p_nonce q)"
    by blast+
  then show ?thesis by (blast dest: Number_toString_inj)
qed

lemma char_toLowerCase_dash: "char_toLowerCase c = CHR ''-'' \<longleftrightarrow> c = CHR ''-''"
  by (auto simp: char_toLowerCase_def split: option.splits if_splits)

lemma toLowerCase_dash: "CHR ''-'' \<in> set (toLowerCase s) \<longleftrightarrow> CHR ''-'' \<in> set s"
proof -
  have "CHR ''-'' \<in> set (map char_toLowerCase s) \<longleftrightarrow> CHR ''-'' \<in> set s"
  proof (induction s)
    case Nil
    then show ?case by simp
  next
    case (Cons c s)
    have "CHR ''-'' = char_toLowerCase c \<longleftrightarrow> CHR ''-'' = c"
      using char_toLowerCase_dash [of c] by (metis (full_types))
    with Cons show ?case by simp
  qed
  then show ?thesis by (simp only: toLowerCase_def)
qed

lemmas eval_strings =
  nonceKey_def Number_toString_def nat_toString_digit nat_toString_step digit_char_def
  toLowerCase_def char_toLowerCase_def

lemmas eval_runtime =
  example_runtime_def BigInt_decimal_def authorization_def

lemma verify_valid_iff:
  "valid (fst (verifyPaymentProof rt used p res amt)) =
   (\<not> p_expiry p < Date_now rt div 1000 \<and> nonceKey p \<notin> used \<and>
    (\<exists>a e. BigInt rt (p_amount p) = Inr a \<and> BigInt rt amt = Inr e \<and> e \<le> a) \<and>
    p_resource p = res \<and>
    (\<exists>addr. verifyTypedData rt (authorization p) (p_signature p) = Inr addr \<and>
       toLowerCase addr = toLowerCase (p_from p)))"
  by (auto simp: verifyPaymentProof_def Let_def verification_error_def split: sum.splits)

lemma verify_state:
  "snd (verifyPaymentProof rt used p res amt) =
   (if valid (fst (verifyPaymentProof rt used p res amt)) then insert (nonceKey p) used else used)"
  by (auto simp: verifyPaymentProof_def Let_def verification_error_def split: sum.splits)

lemma verify_replayed:
  "nonceKey p \<in> used \<Longrightarrow> \<not> p_expiry p < Date_now rt div 1000 \<Longrightarrow>
   verifyPaymentProof rt used p res amt =
     (\<lparr>valid = False, signer = [], reason = Some ''Nonce already used''\<rparr>, used)"
  by (simp add: verifyPaymentProof_def Let_def)

lemma verify_expired:
  "p_expiry p < Date_now rt div 1000 \<Longrightarrow>
   verifyPaymentProof rt used p res amt =
     (\<lparr>valid = False, signer = [], reason = Some ''Payment proof expired''\<rparr>, used)"
  by (simp add: verifyPaymentProof_def Let_def)

lemma verify_accepted:
  assumes "\<not> p_expiry p < Date_now rt div 1000" and "nonceKey p \<notin> used"
    and "BigInt rt (p_amount p) = Inr a" and "BigInt rt amt = Inr e" and "e \<le> a"
    and "p_resource p = res"
    and "verifyTypedData rt (authorization p) (p_signature p) = Inr addr"
    and "toLowerCase addr = toLowerCase (p_from p)"
  shows "verifyPaymentProof rt used p res amt =
           (\<lparr>valid = True, signer = addr, reason = None\<rparr>, insert (nonceKey p) used)"
  using assms by (simp add: verifyPaymentProof_def Let_def)

lemma is_address_no_dash:
  assumes "is_address a"
  shows "CHR ''-'' \<notin> set a"
proof -
  have "set a = set (take 2 a) \<union> set (drop 2 a)"
    by (metis append_take_drop_id set_append)
  with assms show ?thesis by (auto simp: is_address_def)
qed

lemma accepted_from_no_dash:
  assumes "recovers_addresses rt" and "valid (fst (verifyPaymentProof rt used p res amt))"
  shows "CHR ''-'' \<notin> set (p_from p)"
proof -
  from assms(2) obtain addr where
    rec: "verifyTypedData rt (authorization p) (p_signature p) = Inr addr"
    and low: "toLowerCase addr = toLowerCase (p_from p)"
    by (auto simp: verify_valid_iff)
  from assms(1) rec have "is_address addr" by (auto simp: recovers_addresses_def)
  then have "CHR ''-'' \<notin> set (toLowerCase addr)"
    by (simp add: toLowerCase_dash is_address_no_dash)
  then show ?thesis by (simp add: low toLowerCase_dash)
qed

lemma verify_calls_accepted:
  assumes "\<forall>c \<in> set cs. recovers_addresses (fst c)"
  shows "verify_calls used cs = used \<union> nonceKey ` set (accepted_proofs used cs) \<and>
         (\<forall>q \<in> set (accepted_proofs used cs). CHR ''-'' \<notin> set (p_from q))"
  using assms
proof (induction cs arbitrary: used)
  case Nil
  then show ?case by simp
next
  case (Cons c cs)
  obtain rt p res amt where c: "c = (rt, p, res, amt)" by (cases c)
  let ?r = "verifyPaymentProof rt used p res amt"
  from Cons.prems c have lib: "recovers_addresses rt" and rest: "\<forall>c \<in> set cs. recovers_addresses (fst c)"
    by simp_all
  note IH = Cons.IH [OF rest, of "snd ?r"]
  show ?case
  proof (cases "valid (fst ?r)")
    case True
    then have st: "snd ?r = insert (nonceKey p) used" by (simp add: verify_state)
    have "CHR ''-'' \<notin> set (p_from p)" using lib True by (rule accepted_from_no_dash)
    with IH True show ?thesis unfolding c by (auto simp: st)
  next
    case False
    then have st: "snd ?r = used" by (simp add: verify_state)
    with IH False show ?thesis unfolding c by (auto simp: st)
  qed
qed

lemma unused_pair_fresh_key:
  assumes lib: "recovers_addresses rt" "\<forall>c \<in> set calls. recovers_addresses (fst c)"
    and unused: "\<forall>q \<in> set (accepted_proofs {} calls). (p_from q, p_nonce q) \<noteq> (p_from p, p_nonce p)"
    and signed: "verifyTypedData rt (authorization p) (p_signature p) = Inr addr"
      "toLowerCase addr = toLowerCase (p_from p)"
  shows "nonceKey p \<notin> verify_calls {} calls"
proof
  assume "nonceKey p \<in> verify_calls {} calls"
  with verify_calls_accepted [OF lib(2), of "{}"]
  obtain q where q: "q \<in> set (accepted_proofs {} calls)" "nonceKey q = nonceKey p"
    and qd: "CHR ''-'' \<notin> set (p_from q)"
    by auto
  from lib(1) signed(1) have "is_address addr" by (auto simp: recovers_addresses_def)
  then have "CHR ''-'' \<notin> set (toLowerCase addr)"
    by (simp add: toLowerCase_dash is_address_no_dash)
  then have pd: "CHR ''-'' \<notin> set (p_from p)" by (simp add: signed(2) toLowerCase_dash)
  from nonceKey_inj [OF qd pd q(2)] unused q(1) show False by auto
qed

text \<open>
  Claim C1. Let the replay set be the one reached from the empty set by any calls, in
  runtimes whose signature check returns addresses when it returns (as ethers does). A
  proof that is unexpired, pays at least the expected amount, names the expected resource,
  carries a signature recovering its sender, and whose pair (from, nonce) is the pair of
  no proof accepted before, is accepted, and its key is inserted into the replay set.
  Every later call with the same (from, nonce), on any replay set that still holds the
  key, at any time and for any expected resource and amount, is rejected and changes
  nothing; while that proof is unexpired at the later call the reason is the string
  \<^verbatim>\<open>Nonce already used\<close> (a proof that has expired by then is rejected by the expiry
  check, which comes first). For every call at all, the result is valid exactly when all
  five checks succeed, and the replay set grows by the key exactly then: a rejected call
  leaves it unchanged. In the witness the payer has already used the nonce 421336; the
  proof with the nonce 421337 is accepted once and rejected the second time.
\<close>

theorem verifyPaymentProof_accepts_once:
  assumes library: "recovers_addresses rt" "\<forall>c \<in> set calls. recovers_addresses (fst c)"
    and history: "used = verify_calls {} calls"
    and unexpired: "\<not> p_expiry p < Date_now rt div 1000"
    and unused: "\<forall>q \<in> set (accepted_proofs {} calls). (p_from q, p_nonce q) \<noteq> (p_from p, p_nonce p)"
    and amount: "BigInt rt (p_amount p) = Inr a" "BigInt rt expectedAmount = Inr e" "e \<le> a"
    and resource: "p_resource p = expectedResource"
    and signed: "verifyTypedData rt (authorization p) (p_signature p) = Inr addr"
      "toLowerCase addr = toLowerCase (p_from p)"
  shows "verifyPaymentProof rt used p expectedResource expectedAmount =
           (\<lparr>valid = True, signer = addr, reason = None\<rparr>, insert (nonceKey p) used) \<and>
         (\<forall>rt2 used2 p2 res2 amt2.
            insert (nonceKey p) used \<subseteq> used2 \<and> p_from p2 = p_from p \<and> p_nonce p2 = p_nonce p \<longrightarrow>
              \<not> valid (fst (verifyPaymentProof rt2 used2 p2 res2 amt2)) \<and>
              snd (verifyPaymentProof rt2 used2 p2 res2 amt2) = used2 \<and>
              (\<not> p_expiry p2 < Date_now rt2 div 1000 \<longrightarrow>
                 reason (fst (verifyPaymentProof rt2 used2 p2 res2 amt2)) = Some ''Nonce already used'')) \<and>
         (\<forall>rt' u q r m.
            (valid (fst (verifyPaymentProof rt' u q r m)) \<longleftrightarrow>
               \<not> p_expiry q < Date_now rt' div 1000 \<and> nonceKey q \<notin> u \<and>
               (\<exists>x y. BigInt rt' (p_amount q) = Inr x \<and> BigInt rt' m = Inr y \<and> y \<le> x) \<and>
               p_resource q = r \<and>
               (\<exists>w. verifyTypedData rt' (authorization q) (p_signature q) = Inr w \<and>
                    toLowerCase w = toLowerCase (p_from q))) \<and>
            snd (verifyPaymentProof rt' u q r m) =
              (if valid (fst (verifyPaymentProof rt' u q r m)) then insert (nonceKey q) u else u))"
proof -
  have fresh: "nonceKey p \<notin> used"
    unfolding history using library unused signed by (rule unused_pair_fresh_key)
  have first: "verifyPaymentProof rt used p expectedResource expectedAmount =
                 (\<lparr>valid = True, signer = addr, reason = None\<rparr>, insert (nonceKey p) used)"
    using unexpired fresh amount resource signed by (rule verify_accepted)
  have second: "\<not> valid (fst (verifyPaymentProof rt2 used2 p2 res2 amt2)) \<and>
                snd (verifyPaymentProof rt2 used2 p2 res2 amt2) = used2 \<and>
                (\<not> p_expiry p2 < Date_now rt2 div 1000 \<longrightarrow>
                   reason (fst (verifyPaymentProof rt2 used2 p2 res2 amt2)) = Some ''Nonce already used'')"
    if h: "insert (nonceKey p) used \<subseteq> used2 \<and> p_from p2 = p_from p \<and> p_nonce p2 = p_nonce p"
    for rt2 used2 p2 res2 amt2
  proof -
    from h have "nonceKey p2 = nonceKey p" by (simp add: nonceKey_def)
    with h have key: "nonceKey p2 \<in> used2" by auto
    then have inv: "\<not> valid (fst (verifyPaymentProof rt2 used2 p2 res2 amt2))"
      by (simp add: verify_valid_iff)
    then have "snd (verifyPaymentProof rt2 used2 p2 res2 amt2) = used2"
      by (simp add: verify_state)
    with inv key show ?thesis by (simp add: verify_replayed)
  qed
  have later: "\<forall>rt2 used2 p2 res2 amt2.
            insert (nonceKey p) used \<subseteq> used2 \<and> p_from p2 = p_from p \<and> p_nonce p2 = p_nonce p \<longrightarrow>
              \<not> valid (fst (verifyPaymentProof rt2 used2 p2 res2 amt2)) \<and>
              snd (verifyPaymentProof rt2 used2 p2 res2 amt2) = used2 \<and>
              (\<not> p_expiry p2 < Date_now rt2 div 1000 \<longrightarrow>
                 reason (fst (verifyPaymentProof rt2 used2 p2 res2 amt2)) = Some ''Nonce already used'')"
    by (intro allI impI) (rule second)
  have every: "\<forall>rt' u q r m.
            (valid (fst (verifyPaymentProof rt' u q r m)) \<longleftrightarrow>
               \<not> p_expiry q < Date_now rt' div 1000 \<and> nonceKey q \<notin> u \<and>
               (\<exists>x y. BigInt rt' (p_amount q) = Inr x \<and> BigInt rt' m = Inr y \<and> y \<le> x) \<and>
               p_resource q = r \<and>
               (\<exists>w. verifyTypedData rt' (authorization q) (p_signature q) = Inr w \<and>
                    toLowerCase w = toLowerCase (p_from q))) \<and>
            snd (verifyPaymentProof rt' u q r m) =
              (if valid (fst (verifyPaymentProof rt' u q r m)) then insert (nonceKey q) u else u)"
    by (intro allI conjI verify_valid_iff verify_state)
  from first later every show ?thesis by (intro conjI)
qed

theorem verifyPaymentProof_accepts_once_witness:
  "is_address ''0x52908400098527886E0F7030069857D2E4169EE7'' \<and>
   verifyTypedData (payer_runtime 1700000005000) (authorization (payer_proof 421337))
       (p_signature (payer_proof 421337))
     = Inr ''0x52908400098527886E0F7030069857D2E4169EE7'' \<and>
   verify_calls {} [(payer_runtime 1700000000123, payer_proof 421336, ''/api/x402/price/0x7'', ''50'')]
     = {''0x52908400098527886e0f7030069857d2e4169ee7-421336''} \<and>
   accepted_proofs {} [(payer_runtime 1700000000123, payer_proof 421336, ''/api/x402/price/0x7'', ''50'')]
     = [payer_proof 421336] \<and>
   (p_from (payer_proof 421336), p_nonce (payer_proof 421336))
     \<noteq> (p_from (payer_proof 421337), p_nonce (payer_proof 421337)) \<and>
   \<not> p_expiry (payer_proof 421337) < Date_now (payer_runtime 1700000005000) div 1000 \<and>
   verifyPaymentProof (payer_runtime 1700000005000)
       {''0x52908400098527886e0f7030069857d2e4169ee7-421336''}
       (payer_proof 421337) ''/api/x402/price/0x7'' ''50''
     = (\<lparr>valid = True, signer = ''0x52908400098527886E0F7030069857D2E4169EE7'', reason = None\<rparr>,
        {''0x52908400098527886e0f7030069857d2e4169ee7-421337'',
         ''0x52908400098527886e0f7030069857d2e4169ee7-421336''}) \<and>
   verifyPaymentProof (payer_runtime 1700000009000)
       {''0x52908400098527886e0f7030069857d2e4169ee7-421337'',
        ''0x52908400098527886e0f7030069857d2e4169ee7-421336''}
       (payer_proof 421337) ''/api/x402/price/0x7'' ''50''
     = (\<lparr>valid = False, signer = [], reason = Some ''Nonce already used''\<rparr>,
        {''0x52908400098527886e0f7030069857d2e4169ee7-421337'',
         ''0x52908400098527886e0f7030069857d2e4169ee7-421336''})"
proof -
  let ?first_rt = "payer_runtime 1700000000123"
  let ?second_rt = "payer_runtime 1700000005000"
  let ?third_rt = "payer_runtime 1700000009000"
  let ?res = "''/api/x402/price/0x7''"
  let ?calls = "[(?first_rt, payer_proof 421336, ?res, ''50'')]"
  let ?k6 = "''0x52908400098527886e0f7030069857d2e4169ee7-421336''"
  let ?k7 = "''0x52908400098527886e0f7030069857d2e4169ee7-421337''"
  have addr: "is_address ''0x52908400098527886E0F7030069857D2E4169EE7''"
    by (simp add: is_address_def)
  have lib: "recovers_addresses (payer_runtime ms)" for ms
    using addr by (simp add: recovers_addresses_def payer_runtime_def example_runtime_def)
  have libs: "\<forall>c \<in> set ?calls. recovers_addresses (fst c)"
    by (simp add: lib)
  have low: "toLowerCase ''0x52908400098527886E0F7030069857D2E4169EE7'' = toLowerCase (p_from (payer_proof n))" for n
    by (simp add: payer_proof_def eval_strings)
  have key6: "nonceKey (payer_proof 421336) = ?k6" and key7: "nonceKey (payer_proof 421337) = ?k7"
    by (simp_all add: payer_proof_def eval_strings)
  have sig: "verifyTypedData (payer_runtime ms) (authorization (payer_proof n)) (p_signature (payer_proof n))
               = Inr ''0x52908400098527886E0F7030069857D2E4169EE7''" for ms n
    by (simp add: payer_runtime_def example_runtime_def)
  have paid: "BigInt (payer_runtime ms) (p_amount (payer_proof n)) = Inr 100"
    and due: "BigInt (payer_runtime ms) ''50'' = Inr 50" for ms n
    by (simp_all add: payer_runtime_def payer_proof_def eval_runtime)
  have res: "p_resource (payer_proof n) = ?res" for n
    by (simp add: payer_proof_def)
  have live: "\<not> p_expiry (payer_proof n) < Date_now ?first_rt div 1000"
    "\<not> p_expiry (payer_proof n) < Date_now ?second_rt div 1000"
    "\<not> p_expiry (payer_proof n) < Date_now ?third_rt div 1000" for n
    by (simp_all add: payer_proof_def payer_runtime_def example_runtime_def)
  have le: "(50 :: int) \<le> 100" by simp
  have "verifyPaymentProof ?first_rt {} (payer_proof 421336) ?res ''50''
     = (\<lparr>valid = True, signer = ''0x52908400098527886E0F7030069857D2E4169EE7'', reason = None\<rparr>,
        insert (nonceKey (payer_proof 421336)) {})"
    by (rule verify_accepted [OF live(1) _ paid due le res sig low]) simp
  then have call0: "verifyPaymentProof ?first_rt {} (payer_proof 421336) ?res ''50''
     = (\<lparr>valid = True, signer = ''0x52908400098527886E0F7030069857D2E4169EE7'', reason = None\<rparr>, {?k6})"
    by (simp only: key6)
  have hist: "verify_calls {} ?calls = {?k6}"
    by (simp add: call0)
  have acc: "accepted_proofs {} ?calls = [payer_proof 421336]"
    by (simp add: call0)
  have differ: "(p_from (payer_proof 421336), p_nonce (payer_proof 421336))
     \<noteq> (p_from (payer_proof 421337), p_nonce (payer_proof 421337))"
    by (simp add: payer_proof_def)
  have unused: "\<forall>q \<in> set (accepted_proofs {} ?calls).
      (p_from q, p_nonce q) \<noteq> (p_from (payer_proof 421337), p_nonce (payer_proof 421337))"
    using differ by (simp add: acc)
  note main = verifyPaymentProof_accepts_once
    [OF lib libs hist [symmetric] live(2) unused paid due le res sig low]
  from main have first: "verifyPaymentProof ?second_rt {?k6} (payer_proof 421337) ?res ''50''
     = (\<lparr>valid = True, signer = ''0x52908400098527886E0F7030069857D2E4169EE7'', reason = None\<rparr>, {?k7, ?k6})"
    by (simp add: key7)
  from main have "insert (nonceKey (payer_proof 421337)) {?k6} \<subseteq> {?k7, ?k6} \<and>
       p_from (payer_proof 421337) = p_from (payer_proof 421337) \<and>
       p_nonce (payer_proof 421337) = p_nonce (payer_proof 421337) \<longrightarrow>
       \<not> valid (fst (verifyPaymentProof ?third_rt {?k7, ?k6} (payer_proof 421337) ?res ''50'')) \<and>
       snd (verifyPaymentProof ?third_rt {?k7, ?k6} (payer_proof 421337) ?res ''50'') = {?k7, ?k6} \<and>
       (\<not> p_expiry (payer_proof 421337) < Date_now ?third_rt div 1000 \<longrightarrow>
          reason (fst (verifyPaymentProof ?third_rt {?k7, ?k6} (payer_proof 421337) ?res ''50''))
            = Some ''Nonce already used'')"
    by blast
  with live(3) [of 421337] key7
  have "\<not> valid (fst (verifyPaymentProof ?third_rt {?k7, ?k6} (payer_proof 421337) ?res ''50''))"
    and "snd (verifyPaymentProof ?third_rt {?k7, ?k6} (payer_proof 421337) ?res ''50'') = {?k7, ?k6}"
    and "reason (fst (verifyPaymentProof ?third_rt {?k7, ?k6} (payer_proof 421337) ?res ''50''))
            = Some ''Nonce already used''"
    by simp_all
  moreover have "signer (fst (verifyPaymentProof ?third_rt {?k7, ?k6} (payer_proof 421337) ?res ''50'')) = []"
    using live(3) [of 421337] key7 by (simp add: verify_replayed)
  ultimately have second: "verifyPaymentProof ?third_rt {?k7, ?k6} (payer_proof 421337) ?res ''50''
     = (\<lparr>valid = False, signer = [], reason = Some ''Nonce already used''\<rparr>, {?k7, ?k6})"
    by (simp add: prod_eq_iff)
  from addr sig [of 1700000005000 421337] hist acc differ live(2) [of 421337] first second
  show ?thesis by (intro conjI)
qed

text \<open>
  Claim C3, as stated, fails at the boundary: the code rejects when
  \<^verbatim>\<open>proof.expiry < now\<close>, so a proof whose expiry equals \<open>now\<close> is still accepted.
\<close>

theorem verifyPaymentProof_accepts_at_expiry_counterexample:
  "\<not> (valid (fst (verifyPaymentProof (example_runtime 1700000000123 0 ''0xAbCd'') {} boundary_proof
                    ''/api/x402/price/0x7'' ''50''))
      \<longrightarrow> Date_now (example_runtime 1700000000123 0 ''0xAbCd'') div 1000 < p_expiry boundary_proof)"
  by (simp add: verify_valid_iff boundary_proof_def example_proof_def eval_runtime eval_strings)

text \<open>
  Claim C3, amended. A proof is accepted only while \<open>now \<le> expiry\<close>; for every proof
  with \<open>expiry < now\<close> the result is invalid with the reason \<^verbatim>\<open>Payment proof expired\<close> and
  the replay set is unchanged, whatever the signature check would have answered. The
  witness is Scenario C (\<open>expiry = now - 1\<close>, correct signature).
\<close>

theorem verifyPaymentProof_expiry:
  "(valid (fst (verifyPaymentProof rt used p expectedResource expectedAmount))
      \<longrightarrow> Date_now rt div 1000 \<le> p_expiry p) \<and>
   (p_expiry p < Date_now rt div 1000 \<longrightarrow>
      verifyPaymentProof rt used p expectedResource expectedAmount =
        (\<lparr>valid = False, signer = [], reason = Some ''Payment proof expired''\<rparr>, used))"
proof (intro conjI impI)
  assume "valid (fst (verifyPaymentProof rt used p expectedResource expectedAmount))"
  then have "\<not> p_expiry p < Date_now rt div 1000" by (simp add: verify_valid_iff)
  then show "Date_now rt div 1000 \<le> p_expiry p" by simp
next
  assume "p_expiry p < Date_now rt div 1000"
  then show "verifyPaymentProof rt used p expectedResource expectedAmount =
        (\<lparr>valid = False, signer = [], reason = Some ''Payment proof expired''\<rparr>, used)"
    by (rule verify_expired)
qed

theorem verifyPaymentProof_expiry_witness:
  "p_expiry expired_proof < Date_now (example_runtime 1700000000123 0 ''0xAbCd'') div 1000 \<and>
   p_expiry expired_proof = Date_now (example_runtime 1700000000123 0 ''0xAbCd'') div 1000 - 1 \<and>
   verifyTypedData (example_runtime 1700000000123 0 ''0xAbCd'') (authorization expired_proof)
     (p_signature expired_proof) = Inr ''0xAbCd'' \<and>
   toLowerCase ''0xAbCd'' = toLowerCase (p_from expired_proof) \<and>
   verifyPaymentProof (example_runtime 1700000000123 0 ''0xAbCd'') {} expired_proof ''/api/x402/price/0x7'' ''50''
     = (\<lparr>valid = False, signer = [], reason = Some ''Payment proof expired''\<rparr>, {}) \<and>
   valid (fst (verifyPaymentProof (example_runtime 1700000000123 0 ''0xAbCd'') {} boundary_proof
                 ''/api/x402/price/0x7'' ''50'')) \<and>
   Date_now (example_runtime 1700000000123 0 ''0xAbCd'') div 1000 \<le> p_expiry boundary_proof"
proof -
  let ?rt = "example_runtime 1700000000123 0 ''0xAbCd''"
  have late: "p_expiry expired_proof < Date_now ?rt div 1000"
    by (simp add: expired_proof_def example_runtime_def)
  have just: "p_expiry expired_proof = Date_now ?rt div 1000 - 1"
    by (simp add: expired_proof_def example_runtime_def)
  have sig: "verifyTypedData ?rt (authorization expired_proof) (p_signature expired_proof) = Inr ''0xAbCd''"
    by (simp add: example_runtime_def)
  have low: "toLowerCase ''0xAbCd'' = toLowerCase (p_from expired_proof)"
    by (simp add: expired_proof_def example_proof_def eval_strings)
  have ok: "valid (fst (verifyPaymentProof ?rt {} boundary_proof ''/api/x402/price/0x7'' ''50''))"
    by (simp add: verify_valid_iff boundary_proof_def example_proof_def eval_runtime eval_strings)
  from verifyPaymentProof_expiry [of ?rt "{}" expired_proof "''/api/x402/price/0x7''" "''50''"] late
  have rej: "verifyPaymentProof ?rt {} expired_proof ''/api/x402/price/0x7'' ''50''
     = (\<lparr>valid = False, signer = [], reason = Some ''Payment proof expired''\<rparr>, {})"
    by blast
  from verifyPaymentProof_expiry [of ?rt "{}" boundary_proof "''/api/x402/price/0x7''" "''50''"] ok
  have "Date_now ?rt div 1000 \<le> p_expiry boundary_proof" by blast
  with late just sig low rej ok show ?thesis by blast
qed

lemma first_rejection_earliest:
  assumes "f c = Some r" and "c \<in> set cs" and "\<forall>x \<in> set (takeWhile (\<lambda>x. x \<noteq> c) cs). f x = None"
  shows "first_rejection f cs = Some r"
  using assms
proof (induction cs)
  case Nil
  then show ?case by simp
next
  case (Cons a cs)
  show ?case
  proof (cases "a = c")
    case True
    with Cons.prems show ?thesis by simp
  next
    case False
    with Cons.prems have "f a = None" "c \<in> set cs"
      "\<forall>x \<in> set (takeWhile (\<lambda>x. x \<noteq> c) cs). f x = None"
      by auto
    with Cons.IH Cons.prems(1) show ?thesis by simp
  qed
qed

lemma check_listed: "c \<in> set checks_in_order"
  by (cases c) (simp_all add: checks_in_order_def)


text \<open>
  Claim C5. \<^verbatim>\<open>verifyPaymentProof\<close> is the verifier of the contract: the checks expiry,
  replay, amount (\<open>paid \<ge> expected\<close> passes, so overpayment is accepted and underpayment
  rejected), exact resource equality and signature (recovered address equal to the sender
  after lower-casing both) are tried in this order, and the answer is the rejection of the
  first check that fails. The witness is a proof failing all five checks, with the
  failures removed one at a time from the front.
\<close>

theorem verifyPaymentProof_checks_in_order:
  "verifyPaymentProof rt used p expectedResource expectedAmount =
     verify_in_order rt used p expectedResource expectedAmount \<and>
   (rejection rt used p expectedResource expectedAmount c = Some r \<and>
    (\<forall>x \<in> set (earlier c). rejection rt used p expectedResource expectedAmount x = None) \<longrightarrow>
      verifyPaymentProof rt used p expectedResource expectedAmount = (r, used)) \<and>
   ((\<forall>x \<in> set checks_in_order. rejection rt used p expectedResource expectedAmount x = None) \<longrightarrow>
      valid (fst (verifyPaymentProof rt used p expectedResource expectedAmount)))"
proof -
  have eq: "verifyPaymentProof rt used p expectedResource expectedAmount =
     verify_in_order rt used p expectedResource expectedAmount"
    by (simp add: verifyPaymentProof_def verify_in_order_def checks_in_order_def Let_def
          split: sum.splits)
  have early: "verifyPaymentProof rt used p expectedResource expectedAmount = (r, used)"
    if h: "rejection rt used p expectedResource expectedAmount c = Some r \<and>
           (\<forall>x \<in> set (earlier c). rejection rt used p expectedResource expectedAmount x = None)"
  proof -
    from h have "first_rejection (rejection rt used p expectedResource expectedAmount) checks_in_order = Some r"
      using first_rejection_earliest [of "rejection rt used p expectedResource expectedAmount" c r checks_in_order]
        check_listed [of c]
      by (simp add: earlier_def)
    then show ?thesis
      unfolding eq by (simp add: verify_in_order_def checks_in_order_def)
  qed
  have none: "valid (fst (verifyPaymentProof rt used p expectedResource expectedAmount))"
    if "\<forall>x \<in> set checks_in_order. rejection rt used p expectedResource expectedAmount x = None"
    using that unfolding eq by (simp add: verify_in_order_def checks_in_order_def)
  from eq early none show ?thesis by blast
qed

theorem verifyPaymentProof_checks_in_order_witness:
  "rejection (example_runtime 1700000000123 0 ''0xFFFF'') {} failing_proof
      ''/api/x402/price/0x7'' ''50'' Amount
     = Some \<lparr>valid = False, signer = [], reason = Some ''Insufficient payment: 10 < 50''\<rparr> \<and>
   earlier Amount = [Expiry, Replay] \<and>
   rejection (example_runtime 1700000000123 0 ''0xFFFF'') {} failing_proof
      ''/api/x402/price/0x7'' ''50'' Expiry = None \<and>
   rejection (example_runtime 1700000000123 0 ''0xFFFF'') {} failing_proof
      ''/api/x402/price/0x7'' ''50'' Replay = None \<and>
   rejection (example_runtime 1700000000123 0 ''0xFFFF'') {} failing_proof
      ''/api/x402/price/0x7'' ''50'' Resource \<noteq> None \<and>
   rejection (example_runtime 1700000000123 0 ''0xFFFF'') {} failing_proof
      ''/api/x402/price/0x7'' ''50'' Signature \<noteq> None \<and>
   verifyPaymentProof (example_runtime 1700000000123 0 ''0xFFFF'') {} failing_proof
      ''/api/x402/price/0x7'' ''50''
     = (\<lparr>valid = False, signer = [], reason = Some ''Insufficient payment: 10 < 50''\<rparr>, {}) \<and>
   verifyPaymentProof (example_runtime 1700000400000 0 ''0xFFFF'') {''0xabcd-421337''} failing_proof
      ''/api/x402/price/0x7'' ''50''
     = (\<lparr>valid = False, signer = [], reason = Some ''Payment proof expired''\<rparr>, {''0xabcd-421337''}) \<and>
   verifyPaymentProof (example_runtime 1700000000123 0 ''0xFFFF'') {''0xabcd-421337''} failing_proof
      ''/api/x402/price/0x7'' ''50''
     = (\<lparr>valid = False, signer = [], reason = Some ''Nonce already used''\<rparr>, {''0xabcd-421337''}) \<and>
   verifyPaymentProof (example_runtime 1700000000123 0 ''0xFFFF'') {} failing_proof
      ''/api/x402/price/0x7'' ''10''
     = (\<lparr>valid = False, signer = [],
         reason = Some ''Resource mismatch: /api/x402/whale/0x7 !== /api/x402/price/0x7''\<rparr>, {}) \<and>
   verifyPaymentProof (example_runtime 1700000000123 0 ''0xFFFF'') {} failing_proof
      ''/api/x402/whale/0x7'' ''10''
     = (\<lparr>valid = False, signer = ''0xFFFF'', reason = Some ''Signature does not match claimed sender''\<rparr>, {}) \<and>
   verifyPaymentProof (example_runtime 1700000000123 0 ''0xABCD'') {} failing_proof
      ''/api/x402/whale/0x7'' ''5''
     = (\<lparr>valid = True, signer = ''0xABCD'', reason = None\<rparr>, {''0xabcd-421337''})"
proof -
  let ?rt = "example_runtime 1700000000123 0 ''0xFFFF''"
  have key: "nonceKey failing_proof = ''0xabcd-421337''"
    by (simp add: failing_proof_def example_proof_def eval_strings)
  have amount: "rejection ?rt {} failing_proof ''/api/x402/price/0x7'' ''50'' Amount
     = Some \<lparr>valid = False, signer = [], reason = Some ''Insufficient payment: 10 < 50''\<rparr>"
    by (simp add: failing_proof_def example_proof_def eval_runtime)
  have order: "earlier Amount = [Expiry, Replay]"
    by (simp add: earlier_def checks_in_order_def)
  have passed: "rejection ?rt {} failing_proof ''/api/x402/price/0x7'' ''50'' Expiry = None"
    "rejection ?rt {} failing_proof ''/api/x402/price/0x7'' ''50'' Replay = None"
    by (simp_all add: failing_proof_def example_proof_def example_runtime_def)
  then have before: "\<forall>x \<in> set (earlier Amount).
      rejection ?rt {} failing_proof ''/api/x402/price/0x7'' ''50'' x = None"
    by (simp add: order)
  have later: "rejection ?rt {} failing_proof ''/api/x402/price/0x7'' ''50'' Resource \<noteq> None"
    "rejection ?rt {} failing_proof ''/api/x402/price/0x7'' ''50'' Signature \<noteq> None"
    by (simp_all add: failing_proof_def example_proof_def eval_runtime eval_strings)
  note main = verifyPaymentProof_checks_in_order
  from main [of ?rt "{}" failing_proof "''/api/x402/price/0x7''" "''50''" Amount] amount before
  have c: "verifyPaymentProof ?rt {} failing_proof ''/api/x402/price/0x7'' ''50''
     = (\<lparr>valid = False, signer = [], reason = Some ''Insufficient payment: 10 < 50''\<rparr>, {})"
    by blast
  have a: "verify_in_order (example_runtime 1700000400000 0 ''0xFFFF'') {''0xabcd-421337''} failing_proof
      ''/api/x402/price/0x7'' ''50''
     = (\<lparr>valid = False, signer = [], reason = Some ''Payment proof expired''\<rparr>, {''0xabcd-421337''})"
    by (simp add: verify_in_order_def checks_in_order_def failing_proof_def example_proof_def
          example_runtime_def)
  have b: "verify_in_order ?rt {''0xabcd-421337''} failing_proof ''/api/x402/price/0x7'' ''50''
     = (\<lparr>valid = False, signer = [], reason = Some ''Nonce already used''\<rparr>, {''0xabcd-421337''})"
    by (simp add: verify_in_order_def checks_in_order_def key)
       (simp add: failing_proof_def example_proof_def example_runtime_def)
  have d: "verify_in_order ?rt {} failing_proof ''/api/x402/price/0x7'' ''10''
     = (\<lparr>valid = False, signer = [],
         reason = Some ''Resource mismatch: /api/x402/whale/0x7 !== /api/x402/price/0x7''\<rparr>, {})"
    by (simp add: verify_in_order_def checks_in_order_def key)
       (simp add: failing_proof_def example_proof_def eval_runtime)
  have e: "verify_in_order ?rt {} failing_proof ''/api/x402/whale/0x7'' ''10''
     = (\<lparr>valid = False, signer = ''0xFFFF'', reason = Some ''Signature does not match claimed sender''\<rparr>, {})"
    by (simp add: verify_in_order_def checks_in_order_def key)
       (simp add: failing_proof_def example_proof_def eval_runtime eval_strings)
  have f: "verify_in_order (example_runtime 1700000000123 0 ''0xABCD'') {} failing_proof
      ''/api/x402/whale/0x7'' ''5''
     = (\<lparr>valid = True, signer = ''0xABCD'', reason = None\<rparr>, {''0xabcd-421337''})"
    by (simp add: verify_in_order_def checks_in_order_def key)
       (simp add: failing_proof_def example_proof_def eval_runtime eval_strings)
  show ?thesis
    unfolding main [THEN conjunct1] by (intro conjI amount order passed later c [unfolded main [THEN conjunct1]] a b d e f)
qed

text \<open>
  Claim C6, as stated, fails: the nonce is \<open>floor (random * 1000000)\<close>, one of a million
  values, so two requirements for the same (resource, amount, receiver) can carry the same
  nonce, here from two different draws at two different times.
\<close>

theorem createPaymentRequirement_same_nonce_counterexample:
  "\<not> (r_nonce (createPaymentRequirement (example_runtime 1700000000123 (1234561 / 10000000) ''0xAbCd'')
                  ''/api/x402/price/0x7'' ''50'' ''0x9907'')
      \<noteq> r_nonce (createPaymentRequirement (example_runtime 1700000009000 (1234569 / 10000000) ''0xAbCd'')
                  ''/api/x402/price/0x7'' ''50'' ''0x9907''))"
proof -
  have a: "to_double (1234561 / 10000000 * 1000000)
      = of_int (round_half_even (1234561 / 10000000 * 1000000 * 2 ^ 52 / 2 ^ 16)) * 2 ^ 16 / 2 ^ 52"
    by (rule to_double_binade) simp_all
  have b: "to_double (1234569 / 10000000 * 1000000)
      = of_int (round_half_even (1234569 / 10000000 * 1000000 * 2 ^ 52 / 2 ^ 16)) * 2 ^ 16 / 2 ^ 52"
    by (rule to_double_binade) simp_all
  have "\<lfloor>to_double (1234561 / 10000000 * 1000000)\<rfloor> = 123456"
    unfolding a by (simp add: round_half_even_def Let_def)
  moreover have "\<lfloor>to_double (1234569 / 10000000 * 1000000)\<rfloor> = 123456"
    unfolding b by (simp add: round_half_even_def Let_def)
  ultimately show ?thesis
    by (simp add: createPaymentRequirement_def example_runtime_def)
qed

text \<open>
  The product is the double product: at this draw the exact product lies just below
  999992 and the double nearest to it is 999992.
\<close>

lemma createPaymentRequirement_rounds_product:
  "r_nonce (createPaymentRequirement (example_runtime 1700000000123 (4503563598573477 / 2 ^ 52) ''0xAbCd'')
              ''/api/x402/price/0x7'' ''50'' ''0x9907'') = 999992"
proof -
  have "to_double (4503563598573477 / 2 ^ 52 * 1000000)
      = of_int (round_half_even (4503563598573477 / 2 ^ 52 * 1000000 * 2 ^ 52 / 2 ^ 19)) * 2 ^ 19 / 2 ^ 52"
    by (rule to_double_binade) simp_all
  then have "\<lfloor>to_double (4503563598573477 / 2 ^ 52 * 1000000)\<rfloor> = 999992"
    by (simp add: round_half_even_def Let_def)
  then show ?thesis
    by (simp add: createPaymentRequirement_def example_runtime_def)
qed

text \<open>
  Claim C6, amended. Every call computes its nonce from its own random draw as
  \<^verbatim>\<open>Math.floor(Math.random() * 1000000)\<close>, the floor of the double product, an integer
  from 0 to 999999, and sets \<open>expiry = now + 300\<close> seconds; two requirements for identical
  (resource, amount, receiver) carry different nonces exactly when these floors differ.
\<close>

theorem createPaymentRequirement_nonce_expiry:
  assumes "0 \<le> Math_random rt" and "Math_random rt \<le> 1 - 1 / 2 ^ 53"
  shows "r_nonce (createPaymentRequirement rt resource amount receiver)
           = \<lfloor>to_double (Math_random rt * 1000000)\<rfloor> \<and>
         0 \<le> r_nonce (createPaymentRequirement rt resource amount receiver) \<and>
         r_nonce (createPaymentRequirement rt resource amount receiver) \<le> 999999 \<and>
         r_expiry (createPaymentRequirement rt resource amount receiver) = Date_now rt div 1000 + 300 \<and>
         ((r_nonce (createPaymentRequirement rt resource amount receiver)
             \<noteq> r_nonce (createPaymentRequirement rt' resource amount receiver))
          \<longleftrightarrow> \<lfloor>to_double (Math_random rt * 1000000)\<rfloor> \<noteq> \<lfloor>to_double (Math_random rt' * 1000000)\<rfloor>)"
  using floor_to_double_random [OF assms] by (simp add: createPaymentRequirement_def)

theorem createPaymentRequirement_nonce_expiry_witness:
  "0 \<le> Math_random (example_runtime 1700000000123 (1 / 4) ''0xAbCd'') \<and>
   Math_random (example_runtime 1700000000123 (1 / 4) ''0xAbCd'') \<le> 1 - 1 / 2 ^ 53 \<and>
   r_nonce (createPaymentRequirement (example_runtime 1700000000123 (1 / 4) ''0xAbCd'')
              ''/api/x402/price/0x7'' ''50'' ''0x9907'') = 250000 \<and>
   r_expiry (createPaymentRequirement (example_runtime 1700000000123 (1 / 4) ''0xAbCd'')
              ''/api/x402/price/0x7'' ''50'' ''0x9907'') = 1700000300 \<and>
   r_nonce (createPaymentRequirement (example_runtime 1700000000123 (1 / 4) ''0xAbCd'')
              ''/api/x402/price/0x7'' ''50'' ''0x9907'')
     \<noteq> r_nonce (createPaymentRequirement (example_runtime 1700000000123 (3 / 4) ''0xAbCd'')
              ''/api/x402/price/0x7'' ''50'' ''0x9907'')"
proof -
  let ?rt = "example_runtime 1700000000123 (1 / 4) ''0xAbCd''"
  let ?rt' = "example_runtime 1700000000123 (3 / 4) ''0xAbCd''"
  have lo: "0 \<le> Math_random ?rt" and hi: "Math_random ?rt \<le> 1 - 1 / 2 ^ 53"
    by (simp_all add: example_runtime_def)
  have draw: "\<lfloor>to_double (Math_random ?rt * 1000000)\<rfloor> = 250000"
    "\<lfloor>to_double (Math_random ?rt' * 1000000)\<rfloor> = 750000"
    using floor_to_double_quarter floor_to_double_three_quarters
    by (simp_all add: example_runtime_def)
  have clock: "Date_now ?rt div 1000 + 300 = 1700000300"
    by (simp add: example_runtime_def)
  from createPaymentRequirement_nonce_expiry
         [OF lo hi, of "''/api/x402/price/0x7''" "''50''" "''0x9907''" ?rt']
  show ?thesis using lo hi unfolding draw clock by simp
qed

text \<open>
  Claim C10. The replay key is built from the raw string \<^verbatim>\<open>proof.from\<close>, while the
  signature check compares lower-cased addresses. So when a proof has been accepted, a
  second proof that differs from it only in the letter-case of the sender (same nonce,
  same signature, signature still recovering that address) has a different key and is
  accepted as well. The witness is such a pair.
\<close>

theorem verifyPaymentProof_replay_key_is_case_sensitive:
  assumes differ: "p2 = p1\<lparr>p_from := from2\<rparr>" "from2 \<noteq> p_from p1"
    and same: "toLowerCase from2 = toLowerCase (p_from p1)"
    and first: "valid (fst (verifyPaymentProof rt used p1 expectedResource expectedAmount))"
    and unused: "nonceKey p2 \<notin> used"
    and signed: "verifyTypedData rt (authorization p2) (p_signature p2) = Inr addr"
      "toLowerCase addr = toLowerCase from2"
  shows "nonceKey p2 \<noteq> nonceKey p1 \<and>
         valid (fst (verifyPaymentProof rt (snd (verifyPaymentProof rt used p1 expectedResource expectedAmount))
                       p2 expectedResource expectedAmount)) \<and>
         snd (verifyPaymentProof rt (snd (verifyPaymentProof rt used p1 expectedResource expectedAmount))
                       p2 expectedResource expectedAmount)
           = insert (nonceKey p2) (insert (nonceKey p1) used)"
proof -
  have keys: "nonceKey p2 \<noteq> nonceKey p1"
    using differ by (simp add: nonceKey_def)
  have after: "snd (verifyPaymentProof rt used p1 expectedResource expectedAmount) = insert (nonceKey p1) used"
    using first by (simp add: verify_state)
  from first have checks:
    "\<not> p_expiry p1 < Date_now rt div 1000"
    "\<exists>a e. BigInt rt (p_amount p1) = Inr a \<and> BigInt rt expectedAmount = Inr e \<and> e \<le> a"
    "p_resource p1 = expectedResource"
    by (simp_all add: verify_valid_iff)
  have fresh: "nonceKey p2 \<notin> insert (nonceKey p1) used"
    using keys unused by simp
  have ok: "valid (fst (verifyPaymentProof rt (insert (nonceKey p1) used) p2 expectedResource expectedAmount))"
    unfolding verify_valid_iff using checks fresh signed differ(1) by simp
  then have "snd (verifyPaymentProof rt (insert (nonceKey p1) used) p2 expectedResource expectedAmount)
               = insert (nonceKey p2) (insert (nonceKey p1) used)"
    by (simp add: verify_state)
  with keys ok show ?thesis unfolding after by simp
qed

theorem verifyPaymentProof_replay_key_is_case_sensitive_witness:
  "upper_case_proof = example_proof\<lparr>p_from := ''0xABCD''\<rparr> \<and>
   ''0xABCD'' \<noteq> p_from example_proof \<and>
   toLowerCase ''0xABCD'' = toLowerCase (p_from example_proof) \<and>
   p_nonce upper_case_proof = p_nonce example_proof \<and>
   p_signature upper_case_proof = p_signature example_proof \<and>
   valid (fst (verifyPaymentProof (example_runtime 1700000000123 0 ''0xAbCd'') {} example_proof
                 ''/api/x402/price/0x7'' ''50'')) \<and>
   valid (fst (verifyPaymentProof (example_runtime 1700000000123 0 ''0xAbCd'')
                 (snd (verifyPaymentProof (example_runtime 1700000000123 0 ''0xAbCd'') {} example_proof
                         ''/api/x402/price/0x7'' ''50''))
                 upper_case_proof ''/api/x402/price/0x7'' ''50''))"
proof -
  let ?rt = "example_runtime 1700000000123 0 ''0xAbCd''"
  have h1: "upper_case_proof = example_proof\<lparr>p_from := ''0xABCD''\<rparr>"
    by (rule upper_case_proof_def)
  have h2: "''0xABCD'' \<noteq> p_from example_proof"
    by (simp add: example_proof_def)
  have h3: "toLowerCase ''0xABCD'' = toLowerCase (p_from example_proof)"
    by (simp add: example_proof_def eval_strings)
  have h4: "valid (fst (verifyPaymentProof ?rt {} example_proof ''/api/x402/price/0x7'' ''50''))"
    by (simp add: verify_valid_iff example_proof_def eval_runtime eval_strings)
  have h5: "nonceKey upper_case_proof \<notin> {}" by simp
  have h6: "verifyTypedData ?rt (authorization upper_case_proof) (p_signature upper_case_proof) = Inr ''0xAbCd''"
    by (simp add: example_runtime_def)
  have h7: "toLowerCase ''0xAbCd'' = toLowerCase ''0xABCD''"
    by (simp add: eval_strings)
  have same: "p_nonce upper_case_proof = p_nonce example_proof"
    "p_signature upper_case_proof = p_signature example_proof"
    by (simp_all add: upper_case_proof_def)
  from verifyPaymentProof_replay_key_is_case_sensitive [OF h1 h2 h3 h4 h5 h6 h7]
  have "valid (fst (verifyPaymentProof ?rt (snd (verifyPaymentProof ?rt {} example_proof
                         ''/api/x402/price/0x7'' ''50''))
                 upper_case_proof ''/api/x402/price/0x7'' ''50''))"
    by blast
  with h1 h2 h3 h4 same show ?thesis by blast
qed

subsection \<open>Payment client\<close>

lemma parse_requirement_property:
  "parse_requirement r = Some req \<Longrightarrow> get_property req k = Inr (property req k)"
  by (cases req)
     (auto simp: parse_requirement_def property_def js_or_def
           split: sum.splits if_splits elim!: get_property.elims)











subsection \<open>Ledger adapter\<close>

lemmas eval_ledger =
  example_ledger_def logPayment_def logPayment_inMemory_def getPaymentsByAgent_def
  address_or_own_def getContract_def getReadOnlyContract_def hasContract_def
  getAgentAddress_def getWallet_def inMemory_payments_def
  BigInt_decimal_def initial_ledger_state_def fallback_state_def Let_def

text \<open>
  Claim C8, as stated, fails: with the authoritative store configured and its read
  failing, \<^verbatim>\<open>getPaymentsByAgent\<close> returns the records of the in-memory ledger.
\<close>

theorem getPaymentsByAgent_serves_fallback_counterexample:
  "hasContract (example_ledger ''0x1ED9E5'') \<and>
   getReadOnlyContract (example_ledger ''0x1ED9E5'') \<and>
   contract_getPaymentsByAgent (example_ledger ''0x1ED9E5'') ''0xabcd'' = Inl ''could not detect network'' \<and>
   getPaymentsByAgent (example_ledger ''0x1ED9E5'') fallback_state (Some ''0xabcd'')
     = Inr (inMemoryLedger fallback_state) \<and>
   inMemoryLedger fallback_state \<noteq> []"
  by (simp add: eval_ledger eval_strings)

lemma getReadOnlyContract_iff:
  "getReadOnlyContract env \<longleftrightarrow>
     hasContract env \<and> getProvider_error env = None \<and> new_Contract_error env = None"
  by (simp add: getReadOnlyContract_def split: option.splits)

lemma getContract_iff:
  "getContract env \<longleftrightarrow>
     hasContract env \<and> (\<exists>w. getWallet env = Inr w) \<and> new_Contract_error env = None"
  by (auto simp: getContract_def split: sum.splits)

lemma getWallet_needs_provider: "getWallet env = Inr w \<Longrightarrow> getProvider_error env = None"
  by (auto simp: getWallet_def split: if_splits option.splits)

text \<open>
  Claim C8, amended. \<^verbatim>\<open>getPaymentsByAgent\<close> tries the authoritative store whenever one
  is configured and a provider-bound contract can be built, and returns its records when
  that read succeeds; when the read throws, or no store is available, it returns the
  agent's records of the in-memory ledger. \<^verbatim>\<open>logPayment\<close> tries the authoritative store
  whenever one is configured and a wallet-bound contract can be built, and falls back to
  the in-memory branch when there is none or the call throws. Whenever the commit tries
  the authoritative store the read does too, and with a wallet available the two choose
  alike.
\<close>

theorem getPaymentsByAgent_tier:
  "(address_or_own env agentAddress = Inr addr \<and> getReadOnlyContract env \<and>
    contract_getPaymentsByAgent env addr = Inr payments \<longrightarrow>
      getPaymentsByAgent env st agentAddress = Inr (map record_of_chain payments)) \<and>
   (address_or_own env agentAddress = Inr addr \<and>
    (\<not> getReadOnlyContract env \<or> (\<exists>m. contract_getPaymentsByAgent env addr = Inl m)) \<longrightarrow>
      getPaymentsByAgent env st agentAddress = Inr (inMemory_payments st addr)) \<and>
   (getContract env \<and>
    contract_logPayment env provider amount serviceType (ethers_id env txHash) = Inr receipt \<longrightarrow>
      logPayment env st provider amount serviceType txHash =
        (Inr \<lparr>success = True, onChain = True, txReceipt = Some receipt\<rparr>, st)) \<and>
   (\<not> getContract env \<or>
    (\<exists>m. contract_logPayment env provider amount serviceType (ethers_id env txHash) = Inl m) \<longrightarrow>
      logPayment env st provider amount serviceType txHash =
        logPayment_inMemory env st provider amount serviceType txHash) \<and>
   (getReadOnlyContract env \<longleftrightarrow>
      hasContract env \<and> getProvider_error env = None \<and> new_Contract_error env = None) \<and>
   (getContract env \<longleftrightarrow>
      hasContract env \<and> (\<exists>w. getWallet env = Inr w) \<and> new_Contract_error env = None) \<and>
   (getContract env \<longrightarrow> getReadOnlyContract env) \<and>
   ((\<exists>w. getWallet env = Inr w) \<longrightarrow> (getReadOnlyContract env \<longleftrightarrow> getContract env))"
proof -
  have a: "address_or_own env agentAddress = Inr addr \<and> getReadOnlyContract env \<and>
    contract_getPaymentsByAgent env addr = Inr payments \<longrightarrow>
      getPaymentsByAgent env st agentAddress = Inr (map record_of_chain payments)"
    by (simp add: getPaymentsByAgent_def)
  have b: "address_or_own env agentAddress = Inr addr \<and>
    (\<not> getReadOnlyContract env \<or> (\<exists>m. contract_getPaymentsByAgent env addr = Inl m)) \<longrightarrow>
      getPaymentsByAgent env st agentAddress = Inr (inMemory_payments st addr)"
    by (auto simp: getPaymentsByAgent_def)
  have c: "getContract env \<and>
    contract_logPayment env provider amount serviceType (ethers_id env txHash) = Inr receipt \<longrightarrow>
      logPayment env st provider amount serviceType txHash =
        (Inr \<lparr>success = True, onChain = True, txReceipt = Some receipt\<rparr>, st)"
    by (simp add: logPayment_def)
  have d: "\<not> getContract env \<or>
    (\<exists>m. contract_logPayment env provider amount serviceType (ethers_id env txHash) = Inl m) \<longrightarrow>
      logPayment env st provider amount serviceType txHash =
        logPayment_inMemory env st provider amount serviceType txHash"
    by (auto simp: logPayment_def)
  have e: "getReadOnlyContract env \<longleftrightarrow>
      hasContract env \<and> getProvider_error env = None \<and> new_Contract_error env = None"
    by (rule getReadOnlyContract_iff)
  have f: "getContract env \<longleftrightarrow>
      hasContract env \<and> (\<exists>w. getWallet env = Inr w) \<and> new_Contract_error env = None"
    by (rule getContract_iff)
  have g: "getContract env \<longrightarrow> getReadOnlyContract env"
    unfolding e f using getWallet_needs_provider [of env] by blast
  have h: "(\<exists>w. getWallet env = Inr w) \<longrightarrow> (getReadOnlyContract env \<longleftrightarrow> getContract env)"
    unfolding e f using getWallet_needs_provider [of env] by blast
  from a b c d e f g h show ?thesis by (intro conjI)
qed

text \<open>
  Without a private key the two differ: the read tries the configured store, the commit
  goes to memory.
\<close>

lemma read_tries_store_where_commit_does_not:
  "hasContract keyless_ledger \<and> getReadOnlyContract keyless_ledger \<and> \<not> getContract keyless_ledger"
  by (simp add: keyless_ledger_def eval_ledger)

theorem getPaymentsByAgent_tier_witness:
  "address_or_own (example_ledger ''0x1ED9E5'') (Some ''0xabcd'') = Inr ''0xabcd'' \<and>
   getReadOnlyContract (example_ledger ''0x1ED9E5'') \<and>
   getContract (example_ledger ''0x1ED9E5'') \<and>
   contract_getPaymentsByAgent (example_ledger ''0x1ED9E5'') ''0xabcd'' = Inl ''could not detect network'' \<and>
   contract_logPayment (example_ledger ''0x1ED9E5'') ''0x01'' ''5'' ''price''
       (ethers_id (example_ledger ''0x1ED9E5'') ''price-0x7'') = Inl ''could not detect network'' \<and>
   logPayment (example_ledger ''0x1ED9E5'') initial_ledger_state ''0x01'' ''5'' ''price'' ''price-0x7''
     = (Inr \<lparr>success = True, onChain = False, txReceipt = None\<rparr>, fallback_state) \<and>
   getPaymentsByAgent (example_ledger ''0x1ED9E5'') fallback_state (Some ''0xabcd'')
     = Inr (inMemoryLedger fallback_state)"
proof -
  let ?env = "example_ledger ''0x1ED9E5''"
  have a: "address_or_own ?env (Some ''0xabcd'') = Inr ''0xabcd''"
    by (simp add: address_or_own_def)
  have b: "getReadOnlyContract ?env" and c: "getContract ?env"
    by (simp_all add: eval_ledger)
  have d: "contract_getPaymentsByAgent ?env ''0xabcd'' = Inl ''could not detect network''"
    by (simp add: example_ledger_def)
  have e: "contract_logPayment ?env ''0x01'' ''5'' ''price'' (ethers_id ?env ''price-0x7'')
             = Inl ''could not detect network''"
    by (simp add: example_ledger_def)
  have mem: "logPayment_inMemory ?env initial_ledger_state ''0x01'' ''5'' ''price'' ''price-0x7''
     = (Inr \<lparr>success = True, onChain = False, txReceipt = None\<rparr>, fallback_state)"
    by (simp add: eval_ledger)
  have own: "inMemory_payments fallback_state ''0xabcd'' = inMemoryLedger fallback_state"
    by (simp add: inMemory_payments_def fallback_state_def eval_strings)
  note main = getPaymentsByAgent_tier [where env = "?env" and agentAddress = "Some ''0xabcd''"
      and addr = "''0xabcd''" and provider = "''0x01''" and amount = "''5''"
      and serviceType = "''price''" and txHash = "''price-0x7''"]
  from main [where st = initial_ledger_state] e
  have "logPayment ?env initial_ledger_state ''0x01'' ''5'' ''price'' ''price-0x7''
          = logPayment_inMemory ?env initial_ledger_state ''0x01'' ''5'' ''price'' ''price-0x7''"
    by blast
  then have f: "logPayment ?env initial_ledger_state ''0x01'' ''5'' ''price'' ''price-0x7''
     = (Inr \<lparr>success = True, onChain = False, txReceipt = None\<rparr>, fallback_state)"
    by (simp only: mem)
  from main [where st = fallback_state] a d
  have "getPaymentsByAgent ?env fallback_state (Some ''0xabcd'') = Inr (inMemory_payments fallback_state ''0xabcd'')"
    by blast
  then have g: "getPaymentsByAgent ?env fallback_state (Some ''0xabcd'') = Inr (inMemoryLedger fallback_state)"
    by (simp only: own)
  from a b c d e f g show ?thesis by blast
qed

text \<open>
  Claim C9 at a failing input. No contract is configured; one payment of 5 by the
  process's own agent \<open>0xAbCd\<close> is logged in memory. Asked about another agent,
  \<^verbatim>\<open>getPaymentsByAgent\<close> finds no record, yet \<^verbatim>\<open>getAgentStats\<close> reports a total of 5 and
  one payment: the in-memory branch returns the process-wide statistics whatever the
  address.
\<close>

theorem getAgentStats_fallback_ignores_agent:
  "logPayment (example_ledger []) initial_ledger_state ''0x01'' ''5'' ''price'' ''price-0x7''
     = (Inr \<lparr>success = True, onChain = False, txReceipt = None\<rparr>, fallback_state) \<and>
   getPaymentsByAgent (example_ledger []) fallback_state (Some ''0xbeef'') = Inr [] \<and>
   getAgentStats (example_ledger []) fallback_state (Some ''0xbeef'')
     = Inr \<lparr>totalSpent = ''5'', queryCount = 1, firstPayment = 1700000000, lastPayment = 1700000000\<rparr>"
  by (simp add: getAgentStats_def inMemory_stats_def eval_ledger eval_strings)

text \<open>
  The process-wide aggregates themselves follow the in-memory ledger through every
  successful \<^verbatim>\<open>logPayment\<close>.
\<close>

lemma logPayment_keeps_aggregates:
  assumes "aggregates_match (BigInt env) st"
    and "logPayment env st provider amount serviceType txHash = (Inr res, st')"
  shows "aggregates_match (BigInt env) st'"
  using assms
  by (auto simp: logPayment_def logPayment_inMemory_def aggregates_match_def amount_value_def Let_def
           split: if_splits sum.splits)

end
